theory Spec2Isabelle
  imports Complex_Main "HOL-Library.AList" "HOL-Library.Sublist"
begin

section \<open>Numbers, vectors and matrices\<close>

text \<open>
  The mapper computes in \<^verbatim>\<open>float\<close>. The model computes in \<^typ>\<open>real\<close>: rounding, infinities
  and NaN are outside it. Where the source tests for an infinite distance (an unmatched
  nearest-neighbour query) the model uses \<^const>\<open>None\<close>. A time point is a real number of
  seconds.

  A vector is a list of coordinates. A cloud's \<^verbatim>\<open>features\<close> matrix is the list of its columns
  (one column per point, homogeneous coordinate last); a pose
  (\<^verbatim>\<open>PM::TransformationParameters\<close>) is the list of its rows.
\<close>

type_synonym Vector = "real list"
type_synonym TransformationParameters = "real list list"

text \<open>
  Modelled from the spec: the vector and matrix operations are Eigen's, not code of the
  mapper. The spec names them by their mathematics: the Euclidean norm, ``composition is
  matrix product'', the identity. \<open>dot\<close> is \<^verbatim>\<open>.dot()\<close>, \<open>norm_vec\<close> is \<^verbatim>\<open>.norm()\<close>, \<open>vec_sub\<close> the
  difference of two vectors, \<open>normalized\<close> is \<^verbatim>\<open>.normalized()\<close>, \<open>mat_vec\<close> and \<open>mat_mul\<close> the
  products \<^verbatim>\<open>T * v\<close> and \<^verbatim>\<open>correction * estimatedSensorPose\<close>, \<open>mat_identity\<close> is
  \<^verbatim>\<open>PM::Matrix::Identity(n, n)\<close>.
\<close>

definition dot :: "Vector \<Rightarrow> Vector \<Rightarrow> real" where
  "dot u v = (\<Sum>(a, b)\<leftarrow>zip u v. a * b)"

definition norm_vec :: "Vector \<Rightarrow> real" where
  "norm_vec v = sqrt (dot v v)"

definition vec_sub :: "Vector \<Rightarrow> Vector \<Rightarrow> Vector" where
  "vec_sub u v = map (\<lambda>(a, b). a - b) (zip u v)"

definition normalized :: "Vector \<Rightarrow> Vector" where
  "normalized v = map (\<lambda>x. x / norm_vec v) v"

text \<open>
  Modelled from the spec: \<^verbatim>\<open>col(i).head(getEuclideanDim())\<close> and
  \<^verbatim>\<open>topRows(getEuclideanDim())\<close> are the library's; the spec: ``the Euclidean coordinates (all
  rows except the homogeneous row)''.
\<close>

definition headEuclidean :: "Vector \<Rightarrow> Vector" where
  "headEuclidean col = butlast col"

definition mat_vec :: "TransformationParameters \<Rightarrow> Vector \<Rightarrow> Vector" where
  "mat_vec T v = map (\<lambda>row. dot row v) T"

definition mat_mul ::
  "TransformationParameters \<Rightarrow> TransformationParameters \<Rightarrow> TransformationParameters" where
  "mat_mul A B = map (\<lambda>row. map (\<lambda>col. dot row col) (transpose B)) A"

definition mat_identity :: "nat \<Rightarrow> TransformationParameters" where
  "mat_identity n = map (\<lambda>i. map (\<lambda>j. if i = j then 1 else 0) [0..<n]) [0..<n]"

text \<open>
  Modelled from the spec: the matrix inverse \<^verbatim>\<open>.inverse()\<close> is Eigen's, not code of the
  mapper; the spec says of a pose that ``composition is matrix product; inverse exists''.
  The model is the inverse of linear algebra: the transposed cofactor matrix divided by
  the determinant, the determinant by expansion along the first row.
\<close>

definition dropNth :: "nat \<Rightarrow> 'a list \<Rightarrow> 'a list" where
  "dropNth j xs = take j xs @ drop (Suc j) xs"

fun det :: "real list list \<Rightarrow> real" where
  "det [] = 1"
| "det (r # rs) = (\<Sum>j\<leftarrow>[0..<length r]. (- 1) ^ j * (r ! j) * det (map (dropNth j) rs))"

definition mat_inverse :: "TransformationParameters \<Rightarrow> TransformationParameters" where
  "mat_inverse A =
     map (\<lambda>i. map (\<lambda>j. (- 1) ^ (i + j) * det (map (dropNth i) (dropNth j A)) / det A)
                 [0..<length A])
         [0..<length A]"

text \<open>
  Modelled from the spec: \<^verbatim>\<open>topRightCorner(euclideanDim, 1)\<close> is Eigen's; the spec: ``use
  only the first D rows of the translation column''. It is the last entry of each of the
  first \<open>euclideanDim\<close> rows of a pose. A matrix with fewer rows, or with no column, has no
  such block (\<^const>\<open>None\<close>): the default-constructed matrix, which has no row, is one.
\<close>

definition topRightCorner :: "TransformationParameters \<Rightarrow> nat \<Rightarrow> Vector option" where
  "topRightCorner T euclideanDim =
     (if euclideanDim \<le> length T \<and> list_all (\<lambda>row. row \<noteq> []) (take euclideanDim T)
      then Some (map last (take euclideanDim T))
      else None)"

text \<open>
  Modelled from the spec: \<^verbatim>\<open>atan2\<close> and \<^verbatim>\<open>asin\<close> are the C library's; the spec names the
  azimuth \<^verbatim>\<open>atan2(y,x)\<close> and the elevation \<^verbatim>\<open>asin(z/radius)\<close>. \<open>atan2\<close> is the angle of the
  point (x, y), by quadrant; \<^verbatim>\<open>asin\<close> is \<^const>\<open>arcsin\<close>.
\<close>

definition atan2 :: "real \<Rightarrow> real \<Rightarrow> real" where
  "atan2 y x =
     (if 0 < x then arctan (y / x)
      else if x < 0 \<and> 0 \<le> y then arctan (y / x) + pi
      else if x < 0 then arctan (y / x) - pi
      else if 0 < y then pi / 2
      else if y < 0 then - (pi / 2)
      else 0)"

section \<open>Point clouds\<close>

text \<open>
  Modelled from the spec: \<^verbatim>\<open>PM::DataPoints\<close> and its methods are the point-cloud library's,
  not code of the mapper. The spec's data model: ``an ordered collection of N points
  \<dots> carried in homogeneous form (D+1 rows \<times> N cols of features), plus a mapping from
  descriptor-name to a (k \<times> N) matrix of per-point values. \<dots> Clouds are value-like:
  concatenation and column-select are supported; conservative resize to K retains the
  first K columns.'' The descriptors are an association list, in label order, each
  matrix the list of its columns.
\<close>

record DataPoints =
  features :: "Vector list"
  descriptors :: "(string \<times> Vector list) list"

text \<open>
  Modelled from the spec: the methods of \<^verbatim>\<open>PM::DataPoints\<close> that the mapper calls, on the
  data model above. \<open>emptyDataPoints\<close> is the default-constructed cloud.
  \<open>getDescriptorViewByName\<close> is \<^const>\<open>None\<close> where the library raises \<^verbatim>\<open>InvalidField\<close>: the cloud
  has no descriptor of that name. Writing through a view stores into the cloud's
  descriptor of that name (\<open>setDescriptorView\<close>). \<open>addDescriptor\<close> replaces a descriptor of
  the same name and otherwise appends.
\<close>

definition emptyDataPoints :: DataPoints where
  "emptyDataPoints = \<lparr>features = [], descriptors = []\<rparr>"

definition getNbPoints :: "DataPoints \<Rightarrow> nat" where
  "getNbPoints dp = length (features dp)"

definition descriptorExists :: "DataPoints \<Rightarrow> string \<Rightarrow> bool" where
  "descriptorExists dp name = (map_of (descriptors dp) name \<noteq> None)"

definition getDescriptorViewByName :: "DataPoints \<Rightarrow> string \<Rightarrow> Vector list option" where
  "getDescriptorViewByName dp name = map_of (descriptors dp) name"

definition setDescriptorView :: "DataPoints \<Rightarrow> string \<Rightarrow> Vector list \<Rightarrow> DataPoints" where
  "setDescriptorView dp name M = dp\<lparr>descriptors := AList.update name M (descriptors dp)\<rparr>"

definition addDescriptor :: "DataPoints \<Rightarrow> string \<Rightarrow> Vector list \<Rightarrow> DataPoints" where
  "addDescriptor dp name M = dp\<lparr>descriptors := AList.update name M (descriptors dp)\<rparr>"

text \<open>
  Modelled from the spec: \<^verbatim>\<open>dp.setColFrom(thisCol, that, thatCol)\<close>, the library's, which the
  spec does not describe beyond ``column-select''. Column \<open>thatCol\<close> of \<open>that\<close>, features and
  descriptors, is copied over column \<open>thisCol\<close> of \<open>dp\<close>. The two clouds have the same
  descriptor layout at every call of the mapper.
\<close>

definition setColFrom :: "DataPoints \<Rightarrow> nat \<Rightarrow> DataPoints \<Rightarrow> nat \<Rightarrow> DataPoints" where
  "setColFrom dp thisCol that thatCol =
     \<lparr>features = (features dp)[thisCol := features that ! thatCol],
      descriptors =
        map (\<lambda>((n, M), (n', M')). (n, M[thisCol := M' ! thatCol]))
            (zip (descriptors dp) (descriptors that))\<rparr>"

text \<open>
  Modelled from the spec: \<^verbatim>\<open>conservativeResize\<close>, the library's; ``conservative resize to K
  retains the first K columns''.
\<close>

definition conservativeResize :: "DataPoints \<Rightarrow> nat \<Rightarrow> DataPoints" where
  "conservativeResize dp k =
     \<lparr>features = take k (features dp),
      descriptors = map (\<lambda>(n, M). (n, take k M)) (descriptors dp)\<rparr>"

text \<open>
  Modelled from the spec: \<^verbatim>\<open>createSimilarEmpty()\<close>, the library's, which the spec does not
  describe. It gives a cloud of the same shape and labels whose entries are not
  initialised; the model fills it with zeros. The mapper overwrites or cuts off every
  column of it.
\<close>

definition createSimilarEmpty :: "DataPoints \<Rightarrow> DataPoints" where
  "createSimilarEmpty dp =
     \<lparr>features = map (map (\<lambda>x. 0)) (features dp),
      descriptors = map (\<lambda>(n, M). (n, map (map (\<lambda>x. 0)) M)) (descriptors dp)\<rparr>"

text \<open>
  Modelled from the spec: \<^verbatim>\<open>dp.concatenate(dp2)\<close>, the library's; ``concatenation \<dots> [is]
  supported''. The columns of \<open>dp2\<close> come after those of \<open>dp\<close>. The spec does not say what
  becomes of a descriptor that only one of the clouds carries; the model keeps the
  descriptors that both carry.
\<close>

definition concatenate :: "DataPoints \<Rightarrow> DataPoints \<Rightarrow> DataPoints" where
  "concatenate dp dp2 =
     \<lparr>features = features dp @ features dp2,
      descriptors =
        List.map_filter
          (\<lambda>(n, M). map_option (\<lambda>M2. (n, M @ M2)) (map_of (descriptors dp2) n))
          (descriptors dp)\<rparr>"

text \<open>
  Modelled from the spec: ``column-select \<dots> [is] supported''. The columns of \<open>dp\<close> at the
  indices \<open>idx\<close>, in that order.
\<close>

definition selectColumns :: "DataPoints \<Rightarrow> nat list \<Rightarrow> DataPoints" where
  "selectColumns dp idx =
     \<lparr>features = map (\<lambda>i. features dp ! i) idx,
      descriptors = map (\<lambda>(n, M). (n, map (\<lambda>i. M ! i) idx)) (descriptors dp)\<rparr>"

text \<open>
  A cloud is well formed when every descriptor matrix has one column per point.
\<close>

definition wellFormed :: "DataPoints \<Rightarrow> bool" where
  "wellFormed dp = list_all (\<lambda>(n, M). length M = length (features dp)) (descriptors dp)"

section \<open>Collaborators created by the constructor\<close>

text \<open>
  Modelled from the spec: the \<^verbatim>\<open>RigidTransformation\<close> operator is the library's. The spec:
  ``\<^verbatim>\<open>Transformation\<close> with \<^verbatim>\<open>compute(cloud, T)\<close>'', a pose being a matrix that acts on
  homogeneous points. The model multiplies every feature column by the matrix and carries
  the descriptors over.
\<close>

definition rigidTransformation :: "DataPoints \<Rightarrow> TransformationParameters \<Rightarrow> DataPoints" where
  "rigidTransformation dp T = dp\<lparr>features := map (mat_vec T) (features dp)\<rparr>"

text \<open>
  Modelled from the spec: the \<^verbatim>\<open>DistanceLimitDataPointsFilter\<close> is the library's. The
  spec: ``the radius filter (drop points farther than \<^verbatim>\<open>sensorMaxRange\<close> from origin)''.
\<close>

definition distanceLimitFilter :: "real \<Rightarrow> DataPoints \<Rightarrow> DataPoints" where
  "distanceLimitFilter maxDist dp =
     selectColumns dp
       (filter (\<lambda>i. \<not> maxDist < norm_vec (headEuclidean (features dp ! i)))
               [0..<getNbPoints dp])"

section \<open>Nearest-neighbour search\<close>

text \<open>
  Modelled from the spec: the k-NN index is the \<^verbatim>\<open>Nabo\<close> library's. The spec: ``for each
  input point, query the single nearest map point'', the distance returned being the
  squared Euclidean distance, over the leading rows the index was built on (a longer query
  is cut to them). The index is built over at least one point. Of several nearest points
  the model returns the first.
\<close>

definition sqdist :: "Vector \<Rightarrow> Vector \<Rightarrow> real" where
  "sqdist p q = (\<Sum>(a, b)\<leftarrow>zip p q. (a - b) * (a - b))"

fun nearest :: "Vector \<Rightarrow> Vector list \<Rightarrow> Vector \<Rightarrow> nat \<times> real" where
  "nearest p [] q = (0, sqdist p q)"
| "nearest p (p' # ps) q =
     (let (j, d) = nearest p' ps q
      in if sqdist p q \<le> d then (0, sqdist p q) else (Suc j, d))"

text \<open>
  Modelled from the spec: ``query the single nearest input beam with a maximum-radius of
  \<^verbatim>\<open>2\<cdot>beamHalfAngle\<close>; unmatched entries return an infinite distance''. \<^const>\<open>None\<close> is the
  unmatched entry.
\<close>

definition nearestWithin :: "Vector \<Rightarrow> Vector list \<Rightarrow> Vector \<Rightarrow> real \<Rightarrow> (nat \<times> real) option" where
  "nearestWithin p ps q maxRadius =
     (let (j, d) = nearest p ps q in if d \<le> maxRadius * maxRadius then Some (j, d) else None)"

text \<open>
  Modelled from the spec: ``for each input point, query the single nearest map point''.
  The spec does not speak of the option flags of a query; the source does. The two
  searches of the mapper differ in them: the one over the beams (line 224) passes
  \<^verbatim>\<open>NNS::ALLOW_SELF_MATCH\<close>, the one of the novelty filter (line 310) passes none. The flag
  lets the search return a point of the index that coincides with the query; without it
  such a point is not a match, and the nearest of the other points is returned. A query
  that is left with no point is an unmatched entry, with the infinite distance that line
  230 tests for: here \<^const>\<open>None\<close>. The library draws the line of ``coincides'' at the
  rounding unit of its number type, the model, which does not round, at the squared
  distance 0. \<^const>\<open>nearest\<close> and \<^const>\<open>nearestWithin\<close> are the search with the flag,
  \<open>nearestNoSelfMatch\<close> the one without; it gives the squared distance only, the novelty
  filter does not read the identifier. For a query that coincides with no point of the
  index the two searches give the same distance (\<open>nearestNoSelfMatch_apart\<close> below).
\<close>

definition nearestNoSelfMatch :: "Vector list \<Rightarrow> Vector \<Rightarrow> real option" where
  "nearestNoSelfMatch points q =
     (case filter (\<lambda>p. 0 < sqdist p q) points of
        [] \<Rightarrow> None
      | p # ps \<Rightarrow> Some (snd (nearest p ps q)))"

section \<open>The mapper\<close>

text \<open>
  The class \<^verbatim>\<open>Mapper\<close>, one field per member that \<^verbatim>\<open>Mapper.cpp\<close> uses (\<^verbatim>\<open>Mapper.h\<close> declares an
  earlier state of the class, without \<^verbatim>\<open>inputFiltersWorld\<close>, \<^verbatim>\<open>isMapEmpty\<close> and
  \<^verbatim>\<open>icpMapLock\<close>). The filter chains, the ICP
  operator, the transformation and the radius filter are collaborators held by the
  object: function-valued fields. The ICP object is two fields: \<open>icp\<close>, the operator
  \<^verbatim>\<open>icp(cloud)\<close> as a function of the reference cloud and the input, which returns the
  correction with the overlap that \<^verbatim>\<open>icp.errorMinimizer->getOverlap()\<close> reports afterwards,
  or \<^const>\<open>None\<close> when it raises; and \<open>icpReference\<close>, the cloud last handed to
  \<^verbatim>\<open>icp.setMap\<close>. The other collaborators are taken to return normally.

  The two mutexes are not modelled: every operation of the model is one atomic step.
  (When \<^verbatim>\<open>icp(cloud)\<close> raises, \<^verbatim>\<open>processInput\<close> leaves \<^verbatim>\<open>icpMapLock\<close> locked; the model does not
  follow the lock.) The background map build of the online mode is the field
  \<open>mapBuilderFuture\<close>: a running task keeps the arguments \<^verbatim>\<open>std::async\<close> captured, and
  \<open>mapBuilderTask\<close> below is the step in which the worker runs it. The configuration file
  paths are not fields: \<^verbatim>\<open>loadYamlConfig\<close> only reads files into the collaborators.
\<close>

datatype future = NoFuture | Running DataPoints DataPoints TransformationParameters | Ready

record Mapper =
  inputFilters :: "DataPoints \<Rightarrow> DataPoints"
  inputFiltersWorld :: "DataPoints \<Rightarrow> DataPoints"
  mapPostFilters :: "DataPoints \<Rightarrow> DataPoints"
  icp :: "DataPoints \<Rightarrow> DataPoints \<Rightarrow> (TransformationParameters \<times> real) option"
  icpReference :: DataPoints
  map' :: DataPoints
  sensorPose :: TransformationParameters
  transformation :: "DataPoints \<Rightarrow> TransformationParameters \<Rightarrow> DataPoints"
  radiusFilter :: "DataPoints \<Rightarrow> DataPoints"
  lastTimeMapWasUpdated :: real
  lastSensorPoseWhereMapWasUpdated :: TransformationParameters
  mapUpdateCondition :: string
  mapUpdateOverlap :: real
  mapUpdateDelay :: real
  mapUpdateDistance :: real
  minDistNewPoint :: real
  sensorMaxRange :: real
  priorDynamic :: real
  thresholdDynamic :: real
  beamHalfAngle :: real
  epsilonA :: real
  epsilonD :: real
  alpha :: real
  beta :: real
  is3D :: bool
  isOnline :: bool
  computeProbDynamic :: bool
  isMapping :: bool
  newMapAvailable :: bool
  isMapEmpty :: bool
  mapBuilderFuture :: future

text \<open>
  A member function either returns or does not; both leave a mapper behind.
  \<open>PreconditionViolated\<close> is the \<^verbatim>\<open>std::runtime_error\<close> of \<^verbatim>\<open>setMap\<close>,
  \<open>CollaboratorFailed\<close> an exception that comes out of a collaborator, \<open>OutOfRange\<close> the
  read of a block that a matrix does not have: the matrix library's assertion stops the
  program there (and with assertions compiled out the program has no defined behaviour);
  the mapper of that outcome is the one of that moment.
\<close>

datatype error = PreconditionViolated | CollaboratorFailed | OutOfRange

datatype outcome = Returned Mapper | Threw error Mapper

subsection \<open>Construction\<close>

text \<open>
  The radius filter is given its radius as text: \<^verbatim>\<open>std::to_string(sensorMaxRange)\<close>, which
  prints a number with six digits after the decimal point, the nearest such number. The
  filter reads the text back, so its radius is \<open>sensorMaxRange\<close> rounded to six decimals, and
  \<open>sensorMaxRange\<close> itself when that has no more than six. (Of two equally near numbers the
  model takes the larger; which one the platform prints is outside the model.)
\<close>

definition to_string_value :: "real \<Rightarrow> real" where
  "to_string_value x = of_int (round (x * 1000000)) / 1000000"

text \<open>
  The constructor. \<^verbatim>\<open>loadYamlConfig\<close> reads the ICP operator and the three filter chains
  from files; the model takes what was read as arguments. The default-constructed members
  are the empty cloud, the empty matrix, the epoch and the invalid future.
\<close>

definition Mapper_ctor ::
  "(DataPoints \<Rightarrow> DataPoints \<Rightarrow> (TransformationParameters \<times> real) option) \<Rightarrow>
   (DataPoints \<Rightarrow> DataPoints) \<Rightarrow> (DataPoints \<Rightarrow> DataPoints) \<Rightarrow> (DataPoints \<Rightarrow> DataPoints) \<Rightarrow>
   string \<Rightarrow> real \<Rightarrow> real \<Rightarrow> real \<Rightarrow> real \<Rightarrow> real \<Rightarrow> real \<Rightarrow> real \<Rightarrow> real \<Rightarrow> real \<Rightarrow> real \<Rightarrow>
   real \<Rightarrow> real \<Rightarrow> bool \<Rightarrow> bool \<Rightarrow> bool \<Rightarrow> bool \<Rightarrow> Mapper" where
  "Mapper_ctor icpConfig inputFiltersConfig inputFiltersWorldConfig mapPostFiltersConfig
     mapUpdateCondition0 mapUpdateOverlap0 mapUpdateDelay0 mapUpdateDistance0
     minDistNewPoint0 sensorMaxRange0 priorDynamic0 thresholdDynamic0 beamHalfAngle0
     epsilonA0 epsilonD0 alpha0 beta0 is3D0 isOnline0 computeProbDynamic0 isMapping0 =
     \<lparr>inputFilters = inputFiltersConfig,
      inputFiltersWorld = inputFiltersWorldConfig,
      mapPostFilters = mapPostFiltersConfig,
      icp = icpConfig,
      icpReference = emptyDataPoints,
      map' = emptyDataPoints,
      sensorPose = mat_identity (if is3D0 then 4 else 3),
      transformation = rigidTransformation,
      radiusFilter = distanceLimitFilter (to_string_value sensorMaxRange0),
      lastTimeMapWasUpdated = 0,
      lastSensorPoseWhereMapWasUpdated = [],
      mapUpdateCondition = mapUpdateCondition0,
      mapUpdateOverlap = mapUpdateOverlap0,
      mapUpdateDelay = mapUpdateDelay0,
      mapUpdateDistance = mapUpdateDistance0,
      minDistNewPoint = minDistNewPoint0,
      sensorMaxRange = sensorMaxRange0,
      priorDynamic = priorDynamic0,
      thresholdDynamic = thresholdDynamic0,
      beamHalfAngle = beamHalfAngle0,
      epsilonA = epsilonA0,
      epsilonD = epsilonD0,
      alpha = alpha0,
      beta = beta0,
      is3D = is3D0,
      isOnline = isOnline0,
      computeProbDynamic = computeProbDynamic0,
      isMapping = isMapping0,
      newMapAvailable = False,
      isMapEmpty = True,
      mapBuilderFuture = NoFuture\<rparr>"

subsection \<open>The map store\<close>

definition getMap :: "Mapper \<Rightarrow> DataPoints" where
  "getMap m = map' m"

definition getSensorPose :: "Mapper \<Rightarrow> TransformationParameters" where
  "getSensorPose m = sensorPose m"

text \<open>
  The round trip of \<^verbatim>\<open>setMap\<close> and of the novelty filter: the cloud taken to the sensor
  frame of a pose, radius-filtered there, and taken back.
\<close>

definition cutMapAround :: "Mapper \<Rightarrow> DataPoints \<Rightarrow> TransformationParameters \<Rightarrow> DataPoints" where
  "cutMapAround m cloud pose =
     (let cutMapInSensorFrame = radiusFilter m (transformation m cloud (mat_inverse pose))
      in transformation m cutMapInSensorFrame pose)"

definition setMap :: "Mapper \<Rightarrow> DataPoints \<Rightarrow> TransformationParameters \<Rightarrow> outcome" where
  "setMap m newMap newSensorPose =
     (if computeProbDynamic m \<and> \<not> descriptorExists newMap ''normals''
      then Threw PreconditionViolated m
      else
        let cutMap = cutMapAround m newMap newSensorPose
        in Returned (m\<lparr>icpReference := cutMap,
                        map' := newMap,
                        newMapAvailable := True,
                        isMapEmpty := (getNbPoints newMap = 0)\<rparr>))"

text \<open>
  \<^verbatim>\<open>getNewMap(mapOut)\<close>: the returned flag, the caller's cloud afterwards, and the mapper.
\<close>

definition getNewMap :: "Mapper \<Rightarrow> DataPoints \<Rightarrow> bool \<times> DataPoints \<times> Mapper" where
  "getNewMap m mapOut =
     (if newMapAvailable m
      then (True, map' m, m\<lparr>newMapAvailable := False\<rparr>)
      else (False, mapOut, m))"

subsection \<open>The dynamic-probability update\<close>

text \<open>\<^verbatim>\<open>const float eps = 0.0001\<close>.\<close>

definition eps :: real where
  "eps = 1 / 10000"

text \<open>
  \<^verbatim>\<open>convertToSphericalCoordinates\<close>: the radii, and for each point the column of its two
  angles, elevation (zero in 2D) and azimuth.
\<close>

definition convertToSphericalCoordinates :: "Mapper \<Rightarrow> DataPoints \<Rightarrow> real list \<times> Vector list" where
  "convertToSphericalCoordinates m points =
     (let radii = map (\<lambda>col. norm_vec (headEuclidean col)) (features points)
      in (radii,
          map (\<lambda>i. [if is3D m then arcsin (features points ! i ! 2 / radii ! i) else 0,
                     atan2 (features points ! i ! 1) (features points ! i ! 0)])
              [0..<getNbPoints points]))"

text \<open>
  The first loop of \<^verbatim>\<open>computeProbabilityOfPointsBeingDynamic\<close>: the columns within
  \<^verbatim>\<open>sensorMaxRange\<close> are moved to the front of the sensor-frame map, in place, and
  \<open>globalId\<close> records the map column each came from. The state of the loop is the cloud,
  \<open>globalId\<close> and \<open>nbPointsCutMap\<close>.
\<close>

definition cutStep ::
  "Mapper \<Rightarrow> DataPoints \<times> nat list \<times> nat \<Rightarrow> nat \<Rightarrow> DataPoints \<times> nat list \<times> nat" where
  "cutStep m st i =
     (case st of (cutMapInSensorFrame, globalId, nbPointsCutMap) \<Rightarrow>
        if norm_vec (headEuclidean (features cutMapInSensorFrame ! i)) < sensorMaxRange m
        then (setColFrom cutMapInSensorFrame nbPointsCutMap cutMapInSensorFrame i,
              globalId[nbPointsCutMap := i],
              Suc nbPointsCutMap)
        else (cutMapInSensorFrame, globalId, nbPointsCutMap))"

definition cutLoop :: "Mapper \<Rightarrow> DataPoints \<Rightarrow> nat \<Rightarrow> DataPoints \<times> nat list \<times> nat" where
  "cutLoop m mapInSensorFrame n =
     foldl (cutStep m) (mapInSensorFrame, replicate n 0, 0) [0..<n]"

text \<open>
  The body of the second loop, for the cut-map column \<open>i\<close>: the view on the map's
  \<^verbatim>\<open>probabilityDynamic\<close> row before and after. \<open>matches\<close> holds, for each cut-map column,
  the id of the nearest input beam and the squared angular distance, or \<^const>\<open>None\<close>
  where the source finds an infinite distance.
\<close>

definition dynamicStep ::
  "Mapper \<Rightarrow> DataPoints \<Rightarrow> DataPoints \<Rightarrow> nat list \<Rightarrow> (nat \<times> real) option list \<Rightarrow> Vector list \<Rightarrow>
   Vector list \<Rightarrow> nat \<Rightarrow> Vector list" where
  "dynamicStep m currentInputInSensorFrame cutMapInSensorFrame globalId matches viewOnMapNormals
     viewOnProbabilityDynamic i =
     (case matches ! i of
        None \<Rightarrow> viewOnProbabilityDynamic
      | Some (readingPointId, dist2) \<Rightarrow>
         (let mapPointId = globalId ! i;
              readingPoint = headEuclidean (features currentInputInSensorFrame ! readingPointId);
              mapPoint = headEuclidean (features cutMapInSensorFrame ! i);
              delta = norm_vec (vec_sub readingPoint mapPoint);
              d_max = epsilonA m * norm_vec readingPoint;
              mapPointNormal = viewOnMapNormals ! i;
              w_v = eps + (1 - eps) * \<bar>dot mapPointNormal (normalized mapPoint)\<bar>;
              w_d1 = eps + (1 - eps) * (1 - sqrt dist2 / (2 * beamHalfAngle m));
              offset = delta - epsilonD m;
              w_d2 = (if delta < epsilonD m \<or> norm_vec mapPoint > norm_vec readingPoint
                      then eps
                      else if offset < d_max then eps + (1 - eps) * offset / d_max
                      else 1);
              w_p2 = (if delta < epsilonD m then 1
                      else if offset < d_max then eps + (1 - eps) * (1 - offset / d_max)
                      else eps)
          in if norm_vec readingPoint + epsilonD m + d_max \<ge> norm_vec mapPoint
             then
               (let lastDyn = viewOnProbabilityDynamic ! mapPointId ! 0;
                    c1 = 1 - w_v * w_d1;
                    c2 = w_v * w_d1;
                    probDynamic =
                      (if lastDyn < thresholdDynamic m
                       then c1 * lastDyn
                            + c2 * w_d2 * ((1 - alpha m) * (1 - lastDyn) + beta m * lastDyn)
                       else 1 - eps);
                    probStatic =
                      (if lastDyn < thresholdDynamic m
                       then c1 * (1 - lastDyn)
                            + c2 * w_p2 * (alpha m * (1 - lastDyn) + (1 - beta m) * lastDyn)
                       else eps)
                in viewOnProbabilityDynamic
                     [mapPointId := (viewOnProbabilityDynamic ! mapPointId)
                                      [0 := probDynamic / (probDynamic + probStatic)]])
             else viewOnProbabilityDynamic))"

text \<open>
  \<^verbatim>\<open>computeProbabilityOfPointsBeingDynamic\<close> changes \<open>currentMap\<close> in place; the model
  returns it. The index over the input's angles cannot be built over no point, and a
  descriptor view cannot be taken of a descriptor the cloud lacks: the library raises.
\<close>

definition computeProbabilityOfPointsBeingDynamic ::
  "Mapper \<Rightarrow> DataPoints \<Rightarrow> DataPoints \<Rightarrow> TransformationParameters \<Rightarrow> error + DataPoints" where
  "computeProbabilityOfPointsBeingDynamic m currentInput currentMap currentSensorPose =
     (let currentInputInSensorFrame =
            transformation m currentInput (mat_inverse currentSensorPose);
          currentInputInSensorFrameAngles =
            snd (convertToSphericalCoordinates m currentInputInSensorFrame);
          (cut, globalId, nbPointsCutMap) =
            cutLoop m (transformation m currentMap (mat_inverse currentSensorPose))
              (getNbPoints currentMap);
          cutMapInSensorFrame = conservativeResize cut nbPointsCutMap;
          cutMapInSensorFrameAngles = snd (convertToSphericalCoordinates m cutMapInSensorFrame)
      in case currentInputInSensorFrameAngles of
           [] \<Rightarrow> Inl CollaboratorFailed
         | a # as \<Rightarrow>
            (let matches =
                   map (\<lambda>q. nearestWithin a as q (2 * beamHalfAngle m)) cutMapInSensorFrameAngles
             in case getDescriptorViewByName currentMap ''probabilityDynamic'' of
                  None \<Rightarrow> Inl CollaboratorFailed
                | Some viewOnProbabilityDynamic \<Rightarrow>
                   (case getDescriptorViewByName cutMapInSensorFrame ''normals'' of
                      None \<Rightarrow> Inl CollaboratorFailed
                    | Some viewOnMapNormals \<Rightarrow>
                       Inr (setDescriptorView currentMap ''probabilityDynamic''
                              (foldl (dynamicStep m currentInputInSensorFrame cutMapInSensorFrame
                                        globalId matches viewOnMapNormals)
                                 viewOnProbabilityDynamic
                                 [0..<getNbPoints cutMapInSensorFrame])))))"

subsection \<open>The novelty filter\<close>

text \<open>The loop of \<^verbatim>\<open>retrievePointsFurtherThanMinDistNewPoint\<close>; its state is \<open>goodPoints\<close> and
  \<open>goodPointCount\<close>.\<close>

definition goodStep ::
  "Mapper \<Rightarrow> DataPoints \<Rightarrow> real option list \<Rightarrow> DataPoints \<times> nat \<Rightarrow> nat \<Rightarrow> DataPoints \<times> nat" where
  "goodStep m currentInput dists st i =
     (case st of (goodPoints, goodPointCount) \<Rightarrow>
        if (case dists ! i of None \<Rightarrow> True | Some d \<Rightarrow> d \<ge> (minDistNewPoint m)\<^sup>2)
        then (setColFrom goodPoints goodPointCount currentInput i, Suc goodPointCount)
        else (goodPoints, goodPointCount))"

text \<open>
  The index is built over the Euclidean rows of the cut map (\<^verbatim>\<open>cutMap.features.rows() - 1\<close>
  of them), which must hold a point: the library cannot build it over none. The search
  passes no option flag. An unmatched entry has an infinite distance, which is not below
  the square of \<open>minDistNewPoint\<close>: its point is kept.
\<close>

definition retrievePointsFurtherThanMinDistNewPoint ::
  "Mapper \<Rightarrow> DataPoints \<Rightarrow> DataPoints \<Rightarrow> TransformationParameters \<Rightarrow> error + DataPoints" where
  "retrievePointsFurtherThanMinDistNewPoint m currentInput currentMap currentSensorPose =
     (let cutMap = cutMapAround m currentMap currentSensorPose
      in case map headEuclidean (features cutMap) of
           [] \<Rightarrow> Inl CollaboratorFailed
         | p # ps \<Rightarrow>
            (let dists = map (nearestNoSelfMatch (p # ps)) (features currentInput);
                 (goodPoints, goodPointCount) =
                   foldl (goodStep m currentInput dists) (createSimilarEmpty currentInput, 0)
                     [0..<getNbPoints currentInput]
             in Inr (conservativeResize goodPoints goodPointCount)))"

subsection \<open>The map builder\<close>

definition buildMap ::
  "Mapper \<Rightarrow> DataPoints \<Rightarrow> DataPoints \<Rightarrow> TransformationParameters \<Rightarrow> outcome" where
  "buildMap m currentInput0 currentMap0 currentSensorPose =
     (let currentInput =
            (if computeProbDynamic m
             then addDescriptor currentInput0 ''probabilityDynamic''
                    (replicate (length (features currentInput0)) [priorDynamic m])
             else currentInput0);
          merged =
            (if isMapEmpty m then Inr currentInput
             else
               case (if computeProbDynamic m
                     then computeProbabilityOfPointsBeingDynamic m currentInput currentMap0
                            currentSensorPose
                     else Inr currentMap0) of
                 Inl e \<Rightarrow> Inl e
               | Inr currentMap \<Rightarrow>
                  (case retrievePointsFurtherThanMinDistNewPoint m currentInput currentMap
                          currentSensorPose of
                     Inl e \<Rightarrow> Inl e
                   | Inr inputPointsToKeep \<Rightarrow> Inr (concatenate currentMap inputPointsToKeep)))
      in case merged of
           Inl e \<Rightarrow> Threw e m
         | Inr currentMap \<Rightarrow>
            (let mapInSensorFrame =
                   mapPostFilters m (transformation m currentMap (mat_inverse currentSensorPose))
             in setMap m (transformation m mapInSensorFrame currentSensorPose)
                  currentSensorPose))"

text \<open>
  \<^verbatim>\<open>updateMap\<close>: in the online mode, on a map that is not empty, the build is handed to
  the worker with the arguments captured now; otherwise it runs in the call.
\<close>

definition updateMap :: "Mapper \<Rightarrow> DataPoints \<Rightarrow> real \<Rightarrow> outcome" where
  "updateMap m currentInput timeStamp =
     (let m1 = m\<lparr>lastTimeMapWasUpdated := timeStamp,
                  lastSensorPoseWhereMapWasUpdated := sensorPose m\<rparr>
      in if isOnline m1 \<and> \<not> isMapEmpty m1
         then Returned (m1\<lparr>mapBuilderFuture := Running currentInput (getMap m1) (sensorPose m1)\<rparr>)
         else buildMap m1 currentInput (getMap m1) (sensorPose m1))"

text \<open>
  The worker's step: the captured build runs on the mapper as it is then. What the build
  throws stays in the future, which nothing reads.
\<close>

definition mapBuilderTask :: "Mapper \<Rightarrow> Mapper" where
  "mapBuilderTask m =
     (case mapBuilderFuture m of
        Running currentInput currentMap currentSensorPose \<Rightarrow>
          (case buildMap m currentInput currentMap currentSensorPose of
             Returned m' \<Rightarrow> m'\<lparr>mapBuilderFuture := Ready\<rparr>
           | Threw e m' \<Rightarrow> m'\<lparr>mapBuilderFuture := Ready\<rparr>)
      | NoFuture \<Rightarrow> m
      | Ready \<Rightarrow> m)"

subsection \<open>The update policy\<close>

text \<open>
  \<^verbatim>\<open>shouldUpdateMap\<close>. The distance policy reads the sensor location out of
  \<open>lastSensorPoseWhereMapWasUpdated\<close>, which is the default-constructed matrix until the first
  \<^verbatim>\<open>updateMap\<close> (a map set from outside does not assign it), and out of the current pose.
\<close>

definition shouldUpdateMap ::
  "Mapper \<Rightarrow> real \<Rightarrow> TransformationParameters \<Rightarrow> real \<Rightarrow> error + bool" where
  "shouldUpdateMap m currentTime currentSensorPose currentOverlap =
     (if \<not> isMapping m then Inr False
      else if isOnline m \<and>
              (case mapBuilderFuture m of Running a b c \<Rightarrow> True | NoFuture \<Rightarrow> False | Ready \<Rightarrow> False)
      then Inr False
      else if mapUpdateCondition m = ''overlap'' then Inr (currentOverlap < mapUpdateOverlap m)
      else if mapUpdateCondition m = ''delay''
      then Inr (currentTime - lastTimeMapWasUpdated m > mapUpdateDelay m)
      else
        (let euclideanDim = (if is3D m then 3 else 2)
         in case topRightCorner (lastSensorPoseWhereMapWasUpdated m) euclideanDim of
              None \<Rightarrow> Inl OutOfRange
            | Some lastSensorLocation \<Rightarrow>
               (case topRightCorner currentSensorPose euclideanDim of
                  None \<Rightarrow> Inl OutOfRange
                | Some currentSensorLocation \<Rightarrow>
                   Inr (\<bar>norm_vec (vec_sub currentSensorLocation lastSensorLocation)\<bar>
                          > mapUpdateDistance m))))"

subsection \<open>The registration loop\<close>

text \<open>
  \<^verbatim>\<open>processInput\<close>: the outcome, and the caller's cloud \<open>inputInSensorFrame\<close> as the call
  leaves it (the radius filter and the input filters work on it in place).
\<close>

definition processInput ::
  "Mapper \<Rightarrow> DataPoints \<Rightarrow> TransformationParameters \<Rightarrow> real \<Rightarrow> outcome \<times> DataPoints" where
  "processInput m inputInSensorFrame estimatedSensorPose timeStamp =
     (let inputInMapFrame =
            inputFiltersWorld m (transformation m inputInSensorFrame estimatedSensorPose);
          inputInSensorFrame' = inputFilters m (radiusFilter m inputInSensorFrame)
      in if isMapEmpty m
         then (updateMap (m\<lparr>sensorPose := estimatedSensorPose\<rparr>) inputInMapFrame timeStamp,
               inputInSensorFrame')
         else
           case icp m (icpReference m) inputInMapFrame of
             None \<Rightarrow> (Threw CollaboratorFailed m, inputInSensorFrame')
           | Some (correction, overlap) \<Rightarrow>
              (let m1 = m\<lparr>sensorPose := mat_mul correction estimatedSensorPose\<rparr>
               in case shouldUpdateMap m1 timeStamp (sensorPose m1) overlap of
                    Inl e \<Rightarrow> (Threw e m1, inputInSensorFrame')
                  | Inr True \<Rightarrow>
                     (updateMap m1 (transformation m1 inputInMapFrame correction) timeStamp,
                      inputInSensorFrame')
                  | Inr False \<Rightarrow> (Returned m1, inputInSensorFrame')))"

section \<open>Notions used by the statements\<close>

text \<open>The mapper an outcome leaves behind.\<close>

fun mapperOf :: "outcome \<Rightarrow> Mapper" where
  "mapperOf (Returned m) = m"
| "mapperOf (Threw e m) = m"

text \<open>The mapper after \<^verbatim>\<open>setMap\<close> has stored \<open>newMap\<close>: the four assignments of its body.\<close>

definition committed :: "Mapper \<Rightarrow> DataPoints \<Rightarrow> TransformationParameters \<Rightarrow> Mapper" where
  "committed m newMap newSensorPose =
     m\<lparr>icpReference := cutMapAround m newMap newSensorPose,
       map' := newMap,
       newMapAvailable := True,
       isMapEmpty := (getNbPoints newMap = 0)\<rparr>"

text \<open>
  The cloud the first build hands to \<^verbatim>\<open>setMap\<close>: the observation in the map frame, after
  the world-frame filters, with the prior when dynamic probabilities are computed,
  post-filtered in the sensor frame.
\<close>

definition firstMap :: "Mapper \<Rightarrow> DataPoints \<Rightarrow> TransformationParameters \<Rightarrow> DataPoints" where
  "firstMap m inputInSensorFrame estimatedSensorPose =
     (let inputInMapFrame =
            inputFiltersWorld m (transformation m inputInSensorFrame estimatedSensorPose);
          currentInput =
            (if computeProbDynamic m
             then addDescriptor inputInMapFrame ''probabilityDynamic''
                    (replicate (length (features inputInMapFrame)) [priorDynamic m])
             else inputInMapFrame)
      in transformation m
           (mapPostFilters m (transformation m currentInput (mat_inverse estimatedSensorPose)))
           estimatedSensorPose)"

text \<open>
  A call of \<^verbatim>\<open>processInput\<close> runs a map build before it returns when the map is empty,
  or when the mapper is offline, ICP returns and the policy accepts the observation.
\<close>

definition buildRunsInCall ::
  "Mapper \<Rightarrow> DataPoints \<Rightarrow> TransformationParameters \<Rightarrow> real \<Rightarrow> bool" where
  "buildRunsInCall m inputInSensorFrame estimatedSensorPose timeStamp =
     (isMapEmpty m \<or>
      (\<not> isOnline m \<and>
       (case icp m (icpReference m)
               (inputFiltersWorld m (transformation m inputInSensorFrame estimatedSensorPose)) of
          None \<Rightarrow> False
        | Some (correction, overlap) \<Rightarrow>
            shouldUpdateMap (m\<lparr>sensorPose := mat_mul correction estimatedSensorPose\<rparr>) timeStamp
              (mat_mul correction estimatedSensorPose) overlap = Inr True)))"

text \<open>
  The points of a map within the range \<open>r\<close> of the sensor at \<open>pose\<close>, said without the
  mapper's operations: the columns are taken to the sensor frame by the inverse of the
  pose, those whose Euclidean part is longer than \<open>r\<close> are left out, and the others are
  taken back to the map frame by the pose.
\<close>

definition pointsWithinRange :: "real \<Rightarrow> TransformationParameters \<Rightarrow> Vector list \<Rightarrow> Vector list" where
  "pointsWithinRange r pose columns =
     map (mat_vec pose)
       (filter (\<lambda>c. norm_vec (headEuclidean c) \<le> r) (map (mat_vec (mat_inverse pose)) columns))"

text \<open>
  The loops that move columns to the front of a cloud are described on lists: \<open>dst\<close> after
  the entries of \<open>src\<close> at the indices \<open>idx\<close> were copied, one after the other, over its first
  positions; and the indices below \<open>n\<close> that satisfy \<open>P\<close>, in increasing order.
\<close>

definition moved :: "'a list \<Rightarrow> 'a list \<Rightarrow> nat list \<Rightarrow> 'a list" where
  "moved src dst idx = map (\<lambda>i. src ! i) idx @ drop (length idx) dst"

definition keptBelow :: "(nat \<Rightarrow> bool) \<Rightarrow> nat \<Rightarrow> nat list" where
  "keptBelow P n = filter P [0..<n]"


text \<open>
  The sensor-frame map after the columns \<open>idx\<close> were moved to its front, in place; and the
  range test of the first loop of the dynamic-probability update on the column \<open>k\<close>.
\<close>

definition compacted :: "DataPoints \<Rightarrow> nat list \<Rightarrow> DataPoints" where
  "compacted cloud idx =
     \<lparr>features = moved (features cloud) (features cloud) idx,
      descriptors = map (\<lambda>(n, M). (n, moved M M idx)) (descriptors cloud)\<rparr>"

definition withinRange :: "Mapper \<Rightarrow> DataPoints \<Rightarrow> nat \<Rightarrow> bool" where
  "withinRange m mapInSensorFrame k =
     (norm_vec (headEuclidean (features mapInSensorFrame ! k)) < sensorMaxRange m)"

subsection \<open>The dynamic-probability rule as the spec states it\<close>

text \<open>
  These definitions follow the words of the spec (section 4.5), not the code; the code
  is \<open>dynamicStep\<close> above. \<open>angleColumn\<close> is the column of spherical angles of a point. For
  a matched pair of a map point \<open>m\<close> and an input point \<open>r\<close>, with
  \<open>delta = \<parallel>r - m\<parallel>\<close>, \<open>d_max = \<epsilon>A \<cdot> \<parallel>r\<parallel>\<close> and \<open>offset = delta - \<epsilon>D\<close>:
  \<^item> \<open>w_v = \<epsilon> + (1 - \<epsilon>) \<cdot> |n_m \<cdot> (m / \<parallel>m\<parallel>)|\<close>;
  \<^item> \<open>w_d1 = \<epsilon> + (1 - \<epsilon>) \<cdot> (1 - \<surd>d2 / (2 \<cdot> beamHalfAngle))\<close>;
  \<^item> \<open>w_d2\<close> is \<open>\<epsilon>\<close> if \<open>delta < \<epsilon>D\<close> or \<open>\<parallel>m\<parallel> > \<parallel>r\<parallel>\<close>; else
    \<open>\<epsilon> + (1 - \<epsilon>) \<cdot> offset / d_max\<close> when \<open>offset < d_max\<close>; else 1;
  \<^item> \<open>w_p2\<close> is 1 if \<open>delta < \<epsilon>D\<close>; else \<open>\<epsilon> + (1 - \<epsilon>) \<cdot> (1 - offset / d_max)\<close> when
    \<open>offset < d_max\<close>; else \<open>\<epsilon>\<close>;
  \<^item> the gate: proceed only if \<open>\<parallel>r\<parallel> + \<epsilon>D + d_max \<ge> \<parallel>m\<parallel>\<close>;
  \<^item> the posterior \<open>probDyn / (probDyn + probStat)\<close>.
  \<open>updatedRow\<close> is the \<^verbatim>\<open>probabilityDynamic\<close> row of a map point after the rule was applied to
  it: unchanged when no input beam lies within \<open>2 \<cdot> beamHalfAngle\<close> of it or the gate is
  closed.
\<close>

definition angleColumn :: "Mapper \<Rightarrow> Vector \<Rightarrow> Vector" where
  "angleColumn m col =
     [if is3D m then arcsin (col ! 2 / norm_vec (headEuclidean col)) else 0,
      atan2 (col ! 1) (col ! 0)]"

definition w_v_spec :: "Vector \<Rightarrow> Vector \<Rightarrow> real" where
  "w_v_spec n_m mp = eps + (1 - eps) * \<bar>dot n_m (normalized mp)\<bar>"

definition w_d1_spec :: "real \<Rightarrow> real \<Rightarrow> real" where
  "w_d1_spec halfAngle d2 = eps + (1 - eps) * (1 - sqrt d2 / (2 * halfAngle))"

definition w_d2_spec :: "real \<Rightarrow> real \<Rightarrow> real \<Rightarrow> real \<Rightarrow> real \<Rightarrow> real" where
  "w_d2_spec epsD d_max delta normM normR =
     (if delta < epsD \<or> normM > normR then eps
      else if delta - epsD < d_max then eps + (1 - eps) * (delta - epsD) / d_max
      else 1)"

definition w_p2_spec :: "real \<Rightarrow> real \<Rightarrow> real \<Rightarrow> real" where
  "w_p2_spec epsD d_max delta =
     (if delta < epsD then 1
      else if delta - epsD < d_max then eps + (1 - eps) * (1 - (delta - epsD) / d_max)
      else eps)"

definition gate_spec :: "real \<Rightarrow> real \<Rightarrow> real \<Rightarrow> real \<Rightarrow> bool" where
  "gate_spec epsD d_max normM normR = (normR + epsD + d_max \<ge> normM)"

definition posterior_spec :: "Mapper \<Rightarrow> real \<Rightarrow> real \<Rightarrow> real \<Rightarrow> real \<Rightarrow> real \<Rightarrow> real" where
  "posterior_spec m w_v w_d1 w_d2 w_p2 p =
     (let c1 = 1 - w_v * w_d1;
          c2 = w_v * w_d1;
          probDyn = (if p < thresholdDynamic m
                     then c1 * p + c2 * w_d2 * ((1 - alpha m) * (1 - p) + beta m * p)
                     else 1 - eps);
          probStat = (if p < thresholdDynamic m
                      then c1 * (1 - p) + c2 * w_p2 * (alpha m * (1 - p) + (1 - beta m) * p)
                      else eps)
      in probDyn / (probDyn + probStat))"

definition updatedRow :: "Mapper \<Rightarrow> DataPoints \<Rightarrow> Vector \<Rightarrow> Vector \<Rightarrow> Vector \<Rightarrow> Vector" where
  "updatedRow m inputInSensorFrame mapColumn n_m row =
     (case map (angleColumn m) (features inputInSensorFrame) of
        [] \<Rightarrow> row
      | a # as \<Rightarrow>
         (case nearestWithin a as (angleColumn m mapColumn) (2 * beamHalfAngle m) of
            None \<Rightarrow> row
          | Some (readingPointId, d2) \<Rightarrow>
             (let r = headEuclidean (features inputInSensorFrame ! readingPointId);
                  mp = headEuclidean mapColumn;
                  delta = norm_vec (vec_sub r mp);
                  d_max = epsilonA m * norm_vec r
              in if gate_spec (epsilonD m) d_max (norm_vec mp) (norm_vec r)
                 then row[0 := posterior_spec m (w_v_spec n_m mp)
                                  (w_d1_spec (beamHalfAngle m) d2)
                                  (w_d2_spec (epsilonD m) d_max delta (norm_vec mp) (norm_vec r))
                                  (w_p2_spec (epsilonD m) d_max delta)
                                  (row ! 0)]
                 else row)))"

section \<open>A worked run\<close>

text \<open>
  A planar, offline mapper with sensor range 10, no filter chain, and an ICP operator
  that raises on a cloud without points and otherwise returns the translation along x by
  the number of points it was given, with overlap 1: its answer tells what it was handed.
  \<open>mapperA\<close> does not map (\<open>isMapping\<close> is false); \<open>mapperD prior\<close> maps and computes
  dynamic probabilities from the given prior.
\<close>

definition translationX :: "real \<Rightarrow> TransformationParameters" where
  "translationX d = [[1, 0, d], [0, 1, 0], [0, 0, 1]]"

definition icpA :: "DataPoints \<Rightarrow> DataPoints \<Rightarrow> (TransformationParameters \<times> real) option" where
  "icpA reference input =
     (if features input = [] then None
      else Some (translationX (real (length (features input))), 1))"

definition mapperA :: Mapper where
  "mapperA =
     Mapper_ctor icpA (\<lambda>c. c) (\<lambda>c. c) (\<lambda>c. c) ''overlap'' (9 / 10) 1 (1 / 2) (3 / 100) 10
       (6 / 10) (9 / 10) (1 / 100) (1 / 100) (1 / 100) (8 / 10) (99 / 100)
       False False False False"

definition mapperD :: "real \<Rightarrow> Mapper" where
  "mapperD prior =
     Mapper_ctor icpA (\<lambda>c. c) (\<lambda>c. c) (\<lambda>c. c) ''overlap'' (9 / 10) 1 (1 / 2) (3 / 100) 10
       prior (9 / 10) (1 / 100) (1 / 100) (1 / 100) (8 / 10) (99 / 100)
       False False True True"

text \<open>
  One point at (1, 0); the same point with its normal; a near point with a far one,
  without and with normals.
\<close>

definition cloudA :: DataPoints where
  "cloudA = \<lparr>features = [[1, 0, 1]], descriptors = []\<rparr>"

definition cloudB :: DataPoints where
  "cloudB = \<lparr>features = [[1, 0, 1]], descriptors = [(''normals'', [[1, 0]])]\<rparr>"

definition cloudFar :: DataPoints where
  "cloudFar = \<lparr>features = [[1, 0, 1], [50, 0, 1]], descriptors = []\<rparr>"

definition cloudPair :: DataPoints where
  "cloudPair = \<lparr>features = [[1, 0, 1], [50, 0, 1]],
                 descriptors = [(''normals'', [[1, 0], [0, 1]])]\<rparr>"

text \<open>
  \<open>mapperA1\<close>: after the first observation, taken at the origin. \<open>mapperA2\<close>: after a
  second one, taken 100 further along x. \<open>mapperD1 prior\<close>: \<open>mapperD prior\<close> after its first
  observation, the cloud \<open>cloudB\<close>, which makes \<open>cloudB1 prior\<close> the map. \<open>cloudAt x\<close>: one point
  at (x, 0).
\<close>

definition mapperA1 :: Mapper where
  "mapperA1 = mapperOf (fst (processInput mapperA cloudA (translationX 0) 0))"

definition mapperA2 :: Mapper where
  "mapperA2 = mapperOf (fst (processInput mapperA1 cloudA (translationX 100) 1))"

definition mapperD1 :: "real \<Rightarrow> Mapper" where
  "mapperD1 prior = mapperOf (fst (processInput (mapperD prior) cloudB (translationX 0) 0))"

definition cloudB1 :: "real \<Rightarrow> DataPoints" where
  "cloudB1 prior =
     \<lparr>features = [[1, 0, 1]],
      descriptors = [(''normals'', [[1, 0]]), (''probabilityDynamic'', [[prior]])]\<rparr>"

definition cloudAt :: "real \<Rightarrow> DataPoints" where
  "cloudAt x = \<lparr>features = [[x, 0, 1]], descriptors = []\<rparr>"

text \<open>
  \<open>mapperF1\<close>: \<open>mapperA\<close> after a first observation that holds a near and a far point.
  \<open>cloudNear\<close>: a point 1/100 from (1, 0) and a far point, with normals. \<open>mapperP\<close>: \<open>mapperD\<close>
  with the prior 6/10 and a post filter that keeps the points within 5 of the sensor;
  \<open>mapperP1\<close>: after its first observation, the cloud \<open>cloudPair\<close>.
\<close>

definition mapperF1 :: Mapper where
  "mapperF1 = mapperOf (fst (processInput mapperA cloudFar (translationX 0) 0))"


definition mapperP :: Mapper where
  "mapperP =
     Mapper_ctor icpA (\<lambda>c. c) (\<lambda>c. c) (distanceLimitFilter 5) ''overlap'' (9 / 10) 1 (1 / 2)
       (3 / 100) 10 (6 / 10) (9 / 10) (1 / 100) (1 / 100) (1 / 100) (8 / 10) (99 / 100)
       False False True True"

definition mapperP1 :: Mapper where
  "mapperP1 = mapperOf (fst (processInput mapperP cloudPair (translationX 0) 0))"

text \<open>
  \<open>mapperR\<close>: \<open>mapperA\<close> with the sensor range 0.0000006, which is printed as 0.000001;
  \<open>mapperR1\<close>: after its first observation, a point at 0.0000008 from the sensor.
\<close>

definition mapperR :: Mapper where
  "mapperR =
     Mapper_ctor icpA (\<lambda>c. c) (\<lambda>c. c) (\<lambda>c. c) ''overlap'' (9 / 10) 1 (1 / 2) (3 / 100)
       (3 / 5000000) (6 / 10) (9 / 10) (1 / 100) (1 / 100) (1 / 100) (8 / 10) (99 / 100)
       False False False False"

definition mapperR1 :: Mapper where
  "mapperR1 = mapperOf (fst (processInput mapperR (cloudAt (1 / 1250000)) (translationX 0) 0))"

text \<open>\<open>mapperE\<close>: \<open>mapperD\<close> with the prior 6/10 and the parameters \<open>\<alpha> = 1\<close> and \<open>\<beta> = 0\<close>.\<close>

definition mapperE :: Mapper where
  "mapperE =
     Mapper_ctor icpA (\<lambda>c. c) (\<lambda>c. c) (\<lambda>c. c) ''overlap'' (9 / 10) 1 (1 / 2) (3 / 100) 10
       (6 / 10) (9 / 10) (1 / 100) (1 / 100) (1 / 100) 1 0
       False False True True"

section \<open>Facts about the operations\<close>

subsection \<open>The map store and the builder\<close>

lemma committed_fields [simp]:
  "icpReference (committed m nm p) = cutMapAround m nm p"
  "map' (committed m nm p) = nm"
  "newMapAvailable (committed m nm p)"
  "isMapEmpty (committed m nm p) = (getNbPoints nm = 0)"
  "sensorPose (committed m nm p) = sensorPose m"
  "mapBuilderFuture (committed m nm p) = mapBuilderFuture m"
  "transformation (committed m nm p) = transformation m"
  "radiusFilter (committed m nm p) = radiusFilter m"
  "sensorMaxRange (committed m nm p) = sensorMaxRange m"
  by (simp_all add: committed_def)

lemma setMap_Returned:
  "setMap m newMap pose = Returned m' \<Longrightarrow> m' = committed m newMap pose"
  by (auto simp: setMap_def committed_def Let_def split: if_splits)

lemma setMap_Threw:
  "setMap m newMap pose = Threw e m' \<Longrightarrow> m' = m \<and> e = PreconditionViolated"
  by (auto simp: setMap_def Let_def split: if_splits)

lemma buildMap_Returned:
  "buildMap m currentInput currentMap pose = Returned m' \<Longrightarrow>
   \<exists>newMap. m' = committed m newMap pose"
  unfolding buildMap_def Let_def
  by (auto split: sum.splits if_splits dest: setMap_Returned)

lemma buildMap_empty:
  "isMapEmpty m \<Longrightarrow>
   buildMap m currentInput currentMap pose =
     setMap m
       (transformation m
          (mapPostFilters m
             (transformation m
                (if computeProbDynamic m
                 then addDescriptor currentInput ''probabilityDynamic''
                        (replicate (length (features currentInput)) [priorDynamic m])
                 else currentInput)
                (mat_inverse pose)))
          pose)
       pose"
  by (simp add: buildMap_def Let_def)

lemma updateMap_sync:
  "\<not> (isOnline m \<and> \<not> isMapEmpty m) \<Longrightarrow>
   updateMap m currentInput timeStamp =
     buildMap (m\<lparr>lastTimeMapWasUpdated := timeStamp,
                  lastSensorPoseWhereMapWasUpdated := sensorPose m\<rparr>)
       currentInput (map' m) (sensorPose m)"
  by (auto simp: updateMap_def Let_def getMap_def)

lemma updateMap_async:
  "isOnline m \<Longrightarrow> \<not> isMapEmpty m \<Longrightarrow>
   updateMap m currentInput timeStamp =
     Returned (m\<lparr>lastTimeMapWasUpdated := timeStamp,
                   lastSensorPoseWhereMapWasUpdated := sensorPose m,
                   mapBuilderFuture := Running currentInput (map' m) (sensorPose m)\<rparr>)"
  by (simp add: updateMap_def Let_def getMap_def)

lemma updateMap_sensorPose:
  "updateMap m currentInput timeStamp = Returned m' \<Longrightarrow> sensorPose m' = sensorPose m"
  by (cases "isOnline m \<and> \<not> isMapEmpty m")
     (auto simp: updateMap_async updateMap_sync dest!: buildMap_Returned)

subsection \<open>The crop around the sensor\<close>

text \<open>
  With the transformation and the radius filter that the constructor builds,
  \<open>cutMapAround\<close> holds the points of \<open>pointsWithinRange\<close>. Where the pose takes back what its
  inverse took to the sensor frame, these are the columns of the cloud whose distance from
  the sensor is at most the radius. The radius is the text of \<open>sensorMaxRange\<close> read back,
  less than a millionth away from it.
\<close>

lemma filter_nths: "map (\<lambda>i. xs ! i) (filter (\<lambda>i. P (xs ! i)) [0..<length xs]) = filter P xs"
proof -
  have "map (\<lambda>i. xs ! i) (filter (\<lambda>i. P (xs ! i)) [0..<length xs]) =
        filter P (map (\<lambda>i. xs ! i) [0..<length xs])"
    by (simp add: filter_map comp_def)
  also have "map (\<lambda>i. xs ! i) [0..<length xs] = xs"
    by (rule map_nth)
  finally show ?thesis .
qed

lemma features_distanceLimitFilter:
  "features (distanceLimitFilter r c) =
     filter (\<lambda>col. norm_vec (headEuclidean col) \<le> r) (features c)"
  using filter_nths [of "features c" "\<lambda>col. norm_vec (headEuclidean col) \<le> r"]
  by (simp add: distanceLimitFilter_def selectColumns_def getNbPoints_def not_less)

lemma features_cutMapAround:
  "transformation m = rigidTransformation \<Longrightarrow> radiusFilter m = distanceLimitFilter r \<Longrightarrow>
   features (cutMapAround m c T) = pointsWithinRange r T (features c)"
  by (simp add: cutMapAround_def Let_def pointsWithinRange_def rigidTransformation_def
      features_distanceLimitFilter)

lemma pointsWithinRange_round_trip:
  assumes "\<forall>c \<in> set columns. mat_vec T (mat_vec (mat_inverse T) c) = c"
  shows "pointsWithinRange r T columns =
           filter (\<lambda>c. norm_vec (headEuclidean (mat_vec (mat_inverse T) c)) \<le> r) columns"
proof -
  have "pointsWithinRange r T columns =
        map (\<lambda>c. mat_vec T (mat_vec (mat_inverse T) c))
          (filter (\<lambda>c. norm_vec (headEuclidean (mat_vec (mat_inverse T) c)) \<le> r) columns)"
    by (simp add: pointsWithinRange_def filter_map comp_def)
  also have "\<dots> = filter (\<lambda>c. norm_vec (headEuclidean (mat_vec (mat_inverse T) c)) \<le> r) columns"
    using assms by (intro map_idI) simp
  finally show ?thesis .
qed

lemma to_string_value_near: "\<bar>to_string_value x - x\<bar> \<le> 1 / 2000000"
proof -
  have "\<bar>of_int (round (x * 1000000)) - x * 1000000\<bar> \<le> 1 / 2"
    by (rule of_int_round_abs_le)
  then show ?thesis
    by (simp add: to_string_value_def field_simps abs_le_iff)
qed

text \<open>
  A planar pose with a determinant other than 0 takes back what its inverse took to the
  sensor frame.
\<close>

lemma mat_inverse_planar:
  "mat_inverse [[a, b, c], [d, e, f], [g, h, i]] =
    (let D = a * (e * i - f * h) - b * (d * i - f * g) + c * (d * h - e * g) in
     [[(e * i - f * h) / D, - ((b * i - c * h) / D), (b * f - c * e) / D],
      [- ((d * i - f * g) / D), (a * i - c * g) / D, - ((a * f - c * d) / D)],
      [(d * h - e * g) / D, - ((a * h - b * g) / D), (a * e - b * d) / D]])"
  unfolding Let_def mat_inverse_def
  by (simp add: dropNth_def upt_rec del: det.simps) (simp add: dropNth_def upt_rec algebra_simps)

lemma mat_vec_planar:
  "mat_vec [[a, b, c], [d, e, f], [g, h, i]] [x, y, z] =
     [a * x + b * y + c * z, d * x + e * y + f * z, g * x + h * y + i * z]"
  by (simp add: mat_vec_def dot_def)

lemma planar_products:
  fixes a :: real
  assumes D: "D = a * (e * i - f * h) - b * (d * i - f * g) + c * (d * h - e * g)"
    and nz: "D \<noteq> 0"
  shows "a * ((e * i - f * h) / D * x + - ((b * i - c * h) / D) * y + (b * f - c * e) / D * z) +
         b * (- ((d * i - f * g) / D) * x + (a * i - c * g) / D * y + - ((a * f - c * d) / D) * z) +
         c * ((d * h - e * g) / D * x + - ((a * h - b * g) / D) * y + (a * e - b * d) / D * z) = x"
    (is "?l1 = x")
    and "d * ((e * i - f * h) / D * x + - ((b * i - c * h) / D) * y + (b * f - c * e) / D * z) +
         e * (- ((d * i - f * g) / D) * x + (a * i - c * g) / D * y + - ((a * f - c * d) / D) * z) +
         f * ((d * h - e * g) / D * x + - ((a * h - b * g) / D) * y + (a * e - b * d) / D * z) = y"
    (is "?l2 = y")
    and "g * ((e * i - f * h) / D * x + - ((b * i - c * h) / D) * y + (b * f - c * e) / D * z) +
         h * (- ((d * i - f * g) / D) * x + (a * i - c * g) / D * y + - ((a * f - c * d) / D) * z) +
         i * ((d * h - e * g) / D * x + - ((a * h - b * g) / D) * y + (a * e - b * d) / D * z) = z"
    (is "?l3 = z")
proof -
  have "?l1 = (D * x) / D"
    unfolding D by (simp add: divide_simps) (simp add: algebra_simps)
  then show "?l1 = x" using nz by simp
  have "?l2 = (D * y) / D"
    unfolding D by (simp add: divide_simps) (simp add: algebra_simps)
  then show "?l2 = y" using nz by simp
  have "?l3 = (D * z) / D"
    unfolding D by (simp add: divide_simps) (simp add: algebra_simps)
  then show "?l3 = z" using nz by simp
qed

lemma planar_round_trip:
  assumes "det [[a, b, c], [d, e, f], [g, h, i]] \<noteq> 0"
  shows "mat_vec [[a, b, c], [d, e, f], [g, h, i]]
           (mat_vec (mat_inverse [[a, b, c], [d, e, f], [g, h, i]]) [x, y, z]) = [x, y, z]"
proof -
  define D where "D = a * (e * i - f * h) - b * (d * i - f * g) + c * (d * h - e * g)"
  have "det [[a, b, c], [d, e, f], [g, h, i]] = D"
    by (simp add: D_def dropNth_def upt_rec algebra_simps)
  with assms have nz: "D \<noteq> 0" by simp
  have inv: "mat_inverse [[a, b, c], [d, e, f], [g, h, i]] =
     [[(e * i - f * h) / D, - ((b * i - c * h) / D), (b * f - c * e) / D],
      [- ((d * i - f * g) / D), (a * i - c * g) / D, - ((a * f - c * d) / D)],
      [(d * h - e * g) / D, - ((a * h - b * g) / D), (a * e - b * d) / D]]"
    by (simp only: mat_inverse_planar Let_def D_def)
  show ?thesis
    by (simp only: inv mat_vec_planar planar_products [OF D_def nz])
qed

text \<open>What \<^verbatim>\<open>setMap\<close> leaves as the ICP reference, for such a mapper.\<close>

lemma crop_of_committed:
  assumes m': "m' = committed m0 newMap pose" and pose: "sensorPose m0 = pose"
    and rigid: "transformation m0 = rigidTransformation"
    and radius: "radiusFilter m0 = distanceLimitFilter (to_string_value (sensorMaxRange m0))"
  shows "icpReference m' = cutMapAround m' (getMap m') (getSensorPose m')"
    and "features (icpReference m') =
           pointsWithinRange (to_string_value (sensorMaxRange m')) (getSensorPose m')
             (features (getMap m'))"
    and "(\<forall>c \<in> set (features (getMap m')).
            mat_vec (getSensorPose m') (mat_vec (mat_inverse (getSensorPose m')) c) = c) \<Longrightarrow>
         features (icpReference m') =
           filter (\<lambda>c. norm_vec (headEuclidean (mat_vec (mat_inverse (getSensorPose m')) c))
                        \<le> to_string_value (sensorMaxRange m'))
             (features (getMap m'))"
    and "(\<forall>c \<in> set (features (getMap m')).
            mat_vec (getSensorPose m') (mat_vec (mat_inverse (getSensorPose m')) c) = c) \<Longrightarrow>
         \<forall>p \<in> set (features (icpReference m')).
           norm_vec (headEuclidean (mat_vec (mat_inverse (getSensorPose m')) p))
             \<le> to_string_value (sensorMaxRange m') \<and>
           norm_vec (headEuclidean (mat_vec (mat_inverse (getSensorPose m')) p))
             \<le> sensorMaxRange m' + 1 / 2000000"
proof -
  show 1: "icpReference m' = cutMapAround m' (getMap m') (getSensorPose m')"
    using m' pose by (simp add: getMap_def getSensorPose_def cutMapAround_def)
  have f: "transformation m' = rigidTransformation"
      "radiusFilter m' = distanceLimitFilter (to_string_value (sensorMaxRange m'))"
    using m' rigid radius by simp_all
  show 2: "features (icpReference m') =
           pointsWithinRange (to_string_value (sensorMaxRange m')) (getSensorPose m')
             (features (getMap m'))"
    by (simp only: 1 features_cutMapAround [OF f])
  assume rt: "\<forall>c \<in> set (features (getMap m')).
            mat_vec (getSensorPose m') (mat_vec (mat_inverse (getSensorPose m')) c) = c"
  show 3: "features (icpReference m') =
           filter (\<lambda>c. norm_vec (headEuclidean (mat_vec (mat_inverse (getSensorPose m')) c))
                        \<le> to_string_value (sensorMaxRange m'))
             (features (getMap m'))"
    by (simp only: 2 pointsWithinRange_round_trip [OF rt])
  show "\<forall>p \<in> set (features (icpReference m')).
           norm_vec (headEuclidean (mat_vec (mat_inverse (getSensorPose m')) p))
             \<le> to_string_value (sensorMaxRange m') \<and>
           norm_vec (headEuclidean (mat_vec (mat_inverse (getSensorPose m')) p))
             \<le> sensorMaxRange m' + 1 / 2000000"
  proof
    fix p
    assume "p \<in> set (features (icpReference m'))"
    then have le: "norm_vec (headEuclidean (mat_vec (mat_inverse (getSensorPose m')) p))
                 \<le> to_string_value (sensorMaxRange m')"
      unfolding 3 by simp
    also have "\<dots> \<le> sensorMaxRange m' + 1 / 2000000"
      using to_string_value_near [of "sensorMaxRange m'"] by (simp only: abs_le_iff) linarith
    finally have "norm_vec (headEuclidean (mat_vec (mat_inverse (getSensorPose m')) p))
                    \<le> sensorMaxRange m' + 1 / 2000000" .
    with le
    show "norm_vec (headEuclidean (mat_vec (mat_inverse (getSensorPose m')) p))
             \<le> to_string_value (sensorMaxRange m') \<and>
          norm_vec (headEuclidean (mat_vec (mat_inverse (getSensorPose m')) p))
             \<le> sensorMaxRange m' + 1 / 2000000"
      by (rule conjI)
  qed
qed

subsection \<open>The three ways through the registration loop\<close>

lemma processInput_empty:
  "isMapEmpty m \<Longrightarrow>
   processInput m input guess t =
     (updateMap (m\<lparr>sensorPose := guess\<rparr>) (inputFiltersWorld m (transformation m input guess)) t,
      inputFilters m (radiusFilter m input))"
  by (simp add: processInput_def Let_def)

lemma processInput_icp_None:
  "\<not> isMapEmpty m \<Longrightarrow>
   icp m (icpReference m) (inputFiltersWorld m (transformation m input guess)) = None \<Longrightarrow>
   processInput m input guess t =
     (Threw CollaboratorFailed m, inputFilters m (radiusFilter m input))"
  by (simp add: processInput_def Let_def)

lemma processInput_icp_Some:
  "\<not> isMapEmpty m \<Longrightarrow>
   icp m (icpReference m) (inputFiltersWorld m (transformation m input guess)) =
     Some (correction, overlap) \<Longrightarrow>
   processInput m input guess t =
     (case shouldUpdateMap (m\<lparr>sensorPose := mat_mul correction guess\<rparr>) t
             (mat_mul correction guess) overlap of
        Inl e \<Rightarrow> Threw e (m\<lparr>sensorPose := mat_mul correction guess\<rparr>)
      | Inr True \<Rightarrow>
          updateMap (m\<lparr>sensorPose := mat_mul correction guess\<rparr>)
            (transformation m (inputFiltersWorld m (transformation m input guess)) correction) t
      | Inr False \<Rightarrow> Returned (m\<lparr>sensorPose := mat_mul correction guess\<rparr>),
      inputFilters m (radiusFilter m input))"
  by (simp add: processInput_def Let_def split: sum.splits bool.splits)

lemma processInput_empty_setMap:
  "isMapEmpty m \<Longrightarrow>
   fst (processInput m input guess t) =
     setMap (m\<lparr>sensorPose := guess, lastTimeMapWasUpdated := t,
                lastSensorPoseWhereMapWasUpdated := guess\<rparr>)
       (firstMap m input guess) guess"
  by (simp add: processInput_empty updateMap_sync buildMap_empty firstMap_def Let_def)

lemma firstMap_isMapping: "firstMap (m\<lparr>isMapping := b\<rparr>) input guess = firstMap m input guess"
  by (simp add: firstMap_def Let_def)

subsection \<open>Moving columns to the front\<close>

text \<open>
  The loop of the novelty filter copies each retained column of the input over the next
  free column of \<open>goodPoints\<close>. After the iterations below \<open>n\<close>, \<open>goodPoints\<close> is
  \<open>goodPointsAfter\<close> at the indices retained so far (\<open>goodLoop\<close>); cut to their number it is
  the column-select of the input.
\<close>

lemma keptBelow_0 [simp]: "keptBelow P 0 = []"
  by (simp add: keptBelow_def)

lemma keptBelow_Suc:
  "keptBelow P (Suc n) = (if P n then keptBelow P n @ [n] else keptBelow P n)"
  by (simp add: keptBelow_def)

lemma length_keptBelow: "length (keptBelow P n) \<le> n"
  using length_filter_le [of P "[0..<n]"] by (simp add: keptBelow_def)

lemma set_keptBelow: "set (keptBelow P n) = {i. i < n \<and> P i}"
  by (auto simp: keptBelow_def)

lemma distinct_keptBelow: "distinct (keptBelow P n)"
  by (simp add: keptBelow_def)

lemma moved_Nil [simp]: "moved src dst [] = dst"
  by (simp add: moved_def)

lemma length_moved: "length idx \<le> length dst \<Longrightarrow> length (moved src dst idx) = length dst"
  by (simp add: moved_def)

lemma moved_step:
  assumes "length idx < length dst"
  shows "(moved src dst idx)[length idx := src ! i] = moved src dst (idx @ [i])"
proof -
  have "(drop (length idx) dst)[0 := src ! i] = src ! i # drop (Suc (length idx)) dst"
    using assms by (metis Cons_nth_drop_Suc list_update_code(2))
  then show ?thesis
    by (simp add: moved_def list_update_append)
qed

lemma moved_nth_ge:
  "length idx \<le> i \<Longrightarrow> i < length dst \<Longrightarrow> moved src dst idx ! i = dst ! i"
  by (simp add: moved_def nth_append)

lemma take_moved: "take (length idx) (moved src dst idx) = map (\<lambda>i. src ! i) idx"
  by (simp add: moved_def)

lemma moved_nth_lt:
  "j < length idx \<Longrightarrow> moved src dst idx ! j = src ! (idx ! j)"
  by (simp add: moved_def nth_append)











subsection \<open>The first loop of the dynamic-probability update\<close>

text \<open>
  The first loop compacts the sensor-frame map in place. The column it writes never lies
  behind the column it reads, so every column is read as it was in the beginning
  (\<open>cutLoop_prefix\<close>), and \<open>globalId\<close> lists the map columns within range in increasing order.
\<close>

lemma compacted_Nil [simp]: "compacted cloud [] = cloud"
  by (simp add: compacted_def case_prod_beta)

lemma moved_self_step:
  assumes "length idx \<le> i" and "i < length xs"
  shows "(moved xs xs idx)[length idx := moved xs xs idx ! i] = moved xs xs (idx @ [i])"
  using assms by (simp add: moved_step moved_nth_ge)

lemma setColFrom_compacted:
  assumes wf: "wellFormed cloud" and le: "length idx \<le> i" and i: "i < getNbPoints cloud"
  shows "setColFrom (compacted cloud idx) (length idx) (compacted cloud idx) i =
           compacted cloud (idx @ [i])"
proof -
  have f: "(moved (features cloud) (features cloud) idx)
             [length idx := moved (features cloud) (features cloud) idx ! i] =
           moved (features cloud) (features cloud) (idx @ [i])"
    using le i by (intro moved_self_step) (simp_all add: getNbPoints_def)
  have d: "map (\<lambda>(n, M). (n, (moved M M idx)[length idx := moved M M idx ! i])) (descriptors cloud) =
           map (\<lambda>(n, M). (n, moved M M (idx @ [i]))) (descriptors cloud)"
  proof (rule map_cong [OF refl])
    fix x assume x: "x \<in> set (descriptors cloud)"
    obtain n M where nM: "x = (n, M)" by (cases x)
    with x wf have "length M = length (features cloud)"
      by (auto simp: wellFormed_def list_all_iff)
    with le i have "(moved M M idx)[length idx := moved M M idx ! i] = moved M M (idx @ [i])"
      by (intro moved_self_step) (simp_all add: getNbPoints_def)
    with nM show "(case x of (n, M) \<Rightarrow> (n, (moved M M idx)[length idx := moved M M idx ! i])) =
        (case x of (n, M) \<Rightarrow> (n, moved M M (idx @ [i])))"
      by simp
  qed
  have "setColFrom (compacted cloud idx) (length idx) (compacted cloud idx) i =
      \<lparr>features = (moved (features cloud) (features cloud) idx)
                     [length idx := moved (features cloud) (features cloud) idx ! i],
       descriptors =
         map (\<lambda>(n, M). (n, (moved M M idx)[length idx := moved M M idx ! i])) (descriptors cloud)\<rparr>"
    by (simp add: setColFrom_def compacted_def zip_same_conv_map comp_def case_prod_beta)
  with f d show ?thesis
    by (simp add: compacted_def)
qed

lemma features_compacted_nth:
  "length idx \<le> i \<Longrightarrow> i < getNbPoints cloud \<Longrightarrow>
   features (compacted cloud idx) ! i = features cloud ! i"
  by (simp add: compacted_def moved_nth_ge getNbPoints_def)

lemma cutLoop_prefix:
  assumes wf: "wellFormed cloud" and n: "n \<le> getNbPoints cloud" and N: "getNbPoints cloud = N"
  shows "foldl (cutStep m) (cloud, replicate N 0, 0) [0..<n] =
           (compacted cloud (keptBelow (withinRange m cloud) n),
            moved [0..<N] (replicate N 0) (keptBelow (withinRange m cloud) n),
            length (keptBelow (withinRange m cloud) n))"
  using n
proof (induction n)
  case 0
  show ?case by simp
next
  case (Suc n)
  let ?idx = "keptBelow (withinRange m cloud) n"
  have le: "length ?idx \<le> n" by (rule length_keptBelow)
  from Suc.prems have lt: "n < getNbPoints cloud" by simp
  have test: "norm_vec (headEuclidean (features (compacted cloud ?idx) ! n)) < sensorMaxRange m
      \<longleftrightarrow> withinRange m cloud n"
    by (simp add: features_compacted_nth [OF le lt] withinRange_def)
  have gid: "(moved [0..<N] (replicate N 0) ?idx)[length ?idx := n] =
      moved [0..<N] (replicate N 0) (?idx @ [n])"
    using moved_step [of ?idx "replicate N 0" "[0..<N]" n] le lt N by simp
  from Suc lt have IH: "foldl (cutStep m) (cloud, replicate N 0, 0) [0..<n] =
      (compacted cloud ?idx, moved [0..<N] (replicate N 0) ?idx, length ?idx)"
    by simp
  have "foldl (cutStep m) (cloud, replicate N 0, 0) [0..<Suc n] =
      cutStep m (foldl (cutStep m) (cloud, replicate N 0, 0) [0..<n]) n"
    by simp
  also have "\<dots> = cutStep m (compacted cloud ?idx, moved [0..<N] (replicate N 0) ?idx, length ?idx) n"
    by (simp only: IH)
  also have "\<dots> = (compacted cloud (keptBelow (withinRange m cloud) (Suc n)),
      moved [0..<N] (replicate N 0) (keptBelow (withinRange m cloud) (Suc n)),
      length (keptBelow (withinRange m cloud) (Suc n)))"
    by (simp add: cutStep_def test keptBelow_Suc gid setColFrom_compacted [OF wf le lt])
  finally show ?case .
qed

lemma conservativeResize_compacted:
  "conservativeResize (compacted cloud idx) (length idx) = selectColumns cloud idx"
  by (simp add: conservativeResize_def compacted_def selectColumns_def take_moved
      case_prod_beta comp_def)

lemma globalId_nth:
  assumes "j < length idx" and "\<forall>k \<in> set idx. k < N"
  shows "moved [0..<N] (replicate N 0) idx ! j = idx ! j"
  using assms by (simp add: moved_nth_lt)

lemma cutLoop_eq:
  assumes wf: "wellFormed cloud" and N: "getNbPoints cloud = N"
  shows "cutLoop m cloud N =
           (compacted cloud (keptBelow (withinRange m cloud) N),
            moved [0..<N] (replicate N 0) (keptBelow (withinRange m cloud) N),
            length (keptBelow (withinRange m cloud) N))"
  unfolding cutLoop_def using cutLoop_prefix [OF wf _ N, of N m] N by simp

subsection \<open>The second loop of the dynamic-probability update\<close>

text \<open>
  An iteration of the second loop rewrites the row of one map point, the one \<open>globalId\<close>
  names (\<open>dynamicStep_updatedRow\<close>). The points named are distinct, so every row is
  rewritten at most once, from the value it had before the loop (\<open>foldl_update_distinct\<close>).
\<close>

lemma snd_convertToSphericalCoordinates:
  "snd (convertToSphericalCoordinates m points) = map (angleColumn m) (features points)"
proof -
  have "map (\<lambda>i. angleColumn m (features points ! i)) [0..<length (features points)] =
      map (angleColumn m) (features points)"
    by (rule nth_equalityI) simp_all
  moreover have "snd (convertToSphericalCoordinates m points) =
      map (\<lambda>i. angleColumn m (features points ! i)) [0..<length (features points)]"
    by (simp add: convertToSphericalCoordinates_def Let_def getNbPoints_def angleColumn_def)
  ultimately show ?thesis by simp
qed

lemma dynamicStep_updatedRow:
  assumes angles: "map (angleColumn m) (features I) = a # as"
    and i: "i < length idx"
    and match: "matches ! i = nearestWithin a as (angleColumn m (features S ! (idx ! i)))
                                (2 * beamHalfAngle m)"
    and col: "features cutMap ! i = features S ! (idx ! i)"
    and gid: "globalId ! i = idx ! i"
    and nrm: "normalsCut ! i = normals ! (idx ! i)"
  shows "dynamicStep m I cutMap globalId matches normalsCut view i =
           view[idx ! i := updatedRow m I (features S ! (idx ! i)) (normals ! (idx ! i))
                             (view ! (idx ! i))]"
  by (cases "nearestWithin a as (angleColumn m (features S ! (idx ! i))) (2 * beamHalfAngle m)")
     (auto simp: dynamicStep_def updatedRow_def angles match col gid nrm Let_def gate_spec_def
        posterior_spec_def w_v_spec_def w_d1_spec_def w_d2_spec_def w_p2_spec_def)

lemma foldl_update_distinct:
  assumes "distinct idx" and "\<forall>k \<in> set idx. k < length v"
  shows "foldl (\<lambda>v i. v[idx ! i := f (idx ! i) (v ! (idx ! i))]) v [0..<length idx] =
           map (\<lambda>k. if k \<in> set idx then f k (v ! k) else v ! k) [0..<length v]"
  using assms
proof (induction idx rule: rev_induct)
  case Nil
  show ?case by (simp add: map_nth)
next
  case (snoc x idx)
  let ?step = "\<lambda>js. \<lambda>v i. v[js ! i := f (js ! i) (v ! (js ! i))]"
  let ?w = "map (\<lambda>k. if k \<in> set idx then f k (v ! k) else v ! k) [0..<length v]"
  have same: "foldl (?step (idx @ [x])) v [0..<length idx] = foldl (?step idx) v [0..<length idx]"
    by (rule foldl_cong) (auto simp: nth_append)
  from snoc have IH: "foldl (?step idx) v [0..<length idx] = ?w"
    by simp
  from snoc.prems have x: "x \<notin> set idx" "x < length v"
    by simp_all
  have "foldl (?step (idx @ [x])) v [0..<length (idx @ [x])] =
      ?step (idx @ [x]) (foldl (?step (idx @ [x])) v [0..<length idx]) (length idx)"
    by simp
  also have "\<dots> = ?w[x := f x (?w ! x)]"
    by (simp only: same IH) simp
  also have "\<dots> = map (\<lambda>k. if k \<in> set (idx @ [x]) then f k (v ! k) else v ! k) [0..<length v]"
    using x by (intro nth_equalityI) (auto simp: nth_list_update)
  finally show ?case .
qed

lemma features_selectColumns: "features (selectColumns cloud idx) = map (\<lambda>i. features cloud ! i) idx"
  by (simp add: selectColumns_def)

lemma getNbPoints_selectColumns: "getNbPoints (selectColumns cloud idx) = length idx"
  by (simp add: selectColumns_def getNbPoints_def)

lemma view_selectColumns:
  "getDescriptorViewByName (selectColumns cloud idx) name =
     map_option (\<lambda>M. map (\<lambda>i. M ! i) idx) (getDescriptorViewByName cloud name)"
  by (simp add: getDescriptorViewByName_def selectColumns_def map_of_map)

lemma dynamicLoop:
  assumes angles: "map (angleColumn m) (features I) = a # as"
    and dist: "distinct idx"
    and bound: "\<forall>k \<in> set idx. k < length view"
    and inN: "\<forall>k \<in> set idx. k < N"
  shows "foldl (dynamicStep m I (selectColumns S idx) (moved [0..<N] (replicate N 0) idx)
                  (map (\<lambda>q. nearestWithin a as q (2 * beamHalfAngle m))
                     (map (angleColumn m) (features (selectColumns S idx))))
                  (map (\<lambda>i. normals ! i) idx))
           view [0..<length idx] =
         map (\<lambda>k. if k \<in> set idx
                   then updatedRow m I (features S ! k) (normals ! k) (view ! k)
                   else view ! k)
             [0..<length view]" (is "foldl ?step view _ = _")
proof -
  have "foldl ?step view [0..<length idx] =
      foldl (\<lambda>v i. v[idx ! i := updatedRow m I (features S ! (idx ! i)) (normals ! (idx ! i))
                                   (v ! (idx ! i))])
        view [0..<length idx]"
  proof (rule foldl_cong [OF refl refl])
    fix v i assume "i \<in> set [0..<length idx]"
    then have i: "i < length idx" by simp
    show "?step v i =
        v[idx ! i := updatedRow m I (features S ! (idx ! i)) (normals ! (idx ! i)) (v ! (idx ! i))]"
      using i inN
      by (intro dynamicStep_updatedRow [OF angles i])
         (simp_all add: features_selectColumns moved_nth_lt)
  qed
  also have "\<dots> = map (\<lambda>k. if k \<in> set idx
                   then updatedRow m I (features S ! k) (normals ! k) (view ! k)
                   else view ! k) [0..<length view]"
    using foldl_update_distinct [OF dist bound,
        of "\<lambda>k row. updatedRow m I (features S ! k) (normals ! k) row"] .
  finally show ?thesis .
qed

subsection \<open>The worked run, evaluated\<close>

text \<open>The values of the worked run, computed from the definitions.\<close>

lemma to_string_value_10 [simp]: "to_string_value 10 = 10"
  by (simp add: to_string_value_def)

lemma mat_inverse_translationX: "mat_inverse (translationX d) = translationX (- d)"
  by (simp add: mat_inverse_def translationX_def dropNth_def upt_rec)

lemma mat_mul_translationX: "mat_mul (translationX a) (translationX b) = translationX (a + b)"
  by (simp add: mat_mul_def translationX_def dot_def transpose.simps)

lemma mat_identity_3: "mat_identity 3 = translationX 0"
  by (simp add: mat_identity_def translationX_def upt_rec)

lemma rigidTransformation_translationX:
  "rigidTransformation \<lparr>features = [[x, y, 1]], descriptors = ds\<rparr> (translationX d) =
     \<lparr>features = [[x + d, y, 1]], descriptors = ds\<rparr>"
  by (simp add: rigidTransformation_def translationX_def mat_vec_def dot_def)

lemma rigidTransformation_empty:
  "rigidTransformation \<lparr>features = [], descriptors = ds\<rparr> T =
     \<lparr>features = [], descriptors = ds\<rparr>"
  by (simp add: rigidTransformation_def)

lemma norm_vec_on_axis: "norm_vec [x, 0] = \<bar>x\<bar>"
  by (simp add: norm_vec_def dot_def)

lemma distanceLimitFilter_one_point:
  "distanceLimitFilter r \<lparr>features = [[x, 0, 1]], descriptors = []\<rparr> =
     (if r < \<bar>x\<bar> then \<lparr>features = [], descriptors = []\<rparr>
      else \<lparr>features = [[x, 0, 1]], descriptors = []\<rparr>)"
  by (simp add: distanceLimitFilter_def selectColumns_def getNbPoints_def headEuclidean_def
      norm_vec_on_axis)

lemma distanceLimitFilter_cloudB: "distanceLimitFilter 10 cloudB = cloudB"
  by (simp add: distanceLimitFilter_def selectColumns_def getNbPoints_def headEuclidean_def
      norm_vec_on_axis cloudB_def)

lemma distanceLimitFilter_cloudFar: "distanceLimitFilter 10 cloudFar = cloudA"
  by (simp add: distanceLimitFilter_def selectColumns_def getNbPoints_def headEuclidean_def
      norm_vec_on_axis cloudFar_def cloudA_def upt_rec)

lemma cutMapAround_cloudA:
  "transformation m = rigidTransformation \<Longrightarrow> radiusFilter m = distanceLimitFilter 10 \<Longrightarrow>
   cutMapAround m cloudA (translationX d) =
     (if 10 < \<bar>1 - d\<bar> then \<lparr>features = [], descriptors = []\<rparr> else cloudA)"
  by (simp add: cutMapAround_def cloudA_def mat_inverse_translationX Let_def
      rigidTransformation_translationX distanceLimitFilter_one_point rigidTransformation_empty)

lemma mapperA_fields:
  "isMapEmpty mapperA" "\<not> computeProbDynamic mapperA" "\<not> isMapping mapperA"
  "\<not> newMapAvailable mapperA"
  "transformation mapperA = rigidTransformation" "radiusFilter mapperA = distanceLimitFilter 10"
  "inputFiltersWorld mapperA = (\<lambda>c. c)" "inputFilters mapperA = (\<lambda>c. c)"
  "mapPostFilters mapperA = (\<lambda>c. c)" "icp mapperA = icpA" "sensorPose mapperA = translationX 0"
  by (simp_all add: mapperA_def Mapper_ctor_def mat_identity_3)

lemma firstMap_mapperA: "firstMap mapperA cloudA (translationX 0) = cloudA"
  by (simp add: firstMap_def mapperA_fields Let_def cloudA_def mat_inverse_translationX
      rigidTransformation_translationX)

lemma getNbPoints_cloudA: "getNbPoints cloudA = 1"
  by (simp add: cloudA_def getNbPoints_def)

lemma runA1:
  "fst (processInput mapperA cloudA (translationX 0) 0) =
     Returned (mapperA\<lparr>sensorPose := translationX 0, lastTimeMapWasUpdated := 0,
                 lastSensorPoseWhereMapWasUpdated := translationX 0,
                 icpReference := cloudA, map' := cloudA, newMapAvailable := True,
                 isMapEmpty := False\<rparr>)"
  by (simp add: processInput_empty_setMap mapperA_fields firstMap_mapperA
      setMap_def Let_def cutMapAround_cloudA getNbPoints_cloudA)

lemma mapperA1_eq:
  "mapperA1 = mapperA\<lparr>sensorPose := translationX 0, lastTimeMapWasUpdated := 0,
                lastSensorPoseWhereMapWasUpdated := translationX 0,
                icpReference := cloudA, map' := cloudA, newMapAvailable := True,
                isMapEmpty := False\<rparr>"
  by (simp add: mapperA1_def runA1)

lemma mapperA1_fields:
  "\<not> isMapEmpty mapperA1" "\<not> computeProbDynamic mapperA1" "\<not> isMapping mapperA1"
  "\<not> isOnline mapperA1"
  "transformation mapperA1 = rigidTransformation" "radiusFilter mapperA1 = distanceLimitFilter 10"
  "inputFiltersWorld mapperA1 = (\<lambda>c. c)" "inputFilters mapperA1 = (\<lambda>c. c)"
  "icp mapperA1 = icpA" "icpReference mapperA1 = cloudA" "map' mapperA1 = cloudA"
  "sensorPose mapperA1 = translationX 0" "newMapAvailable mapperA1"
  "sensorMaxRange mapperA1 = 10"
  by (simp_all add: mapperA1_eq mapperA_fields) (simp_all add: mapperA_def Mapper_ctor_def)

lemma icpA_cloudA:
  "icp mapperA1 (icpReference mapperA1)
     (inputFiltersWorld mapperA1 (transformation mapperA1 cloudA (translationX d))) =
   Some (translationX 1, 1)"
  by (simp add: mapperA1_fields icpA_def cloudA_def rigidTransformation_translationX)

lemma runA2:
  "processInput mapperA1 cloudA (translationX d) t =
     (Returned (mapperA1\<lparr>sensorPose := translationX (1 + d)\<rparr>), cloudA)"
  using processInput_icp_Some [OF mapperA1_fields(1) icpA_cloudA, of d t]
  by (simp add: shouldUpdateMap_def mapperA1_fields mat_mul_translationX)
     (simp add: cloudA_def distanceLimitFilter_one_point)

lemma mapperA2_eq: "mapperA2 = mapperA1\<lparr>sensorPose := translationX 101\<rparr>"
  by (simp add: mapperA2_def runA2)

lemma runA1_full: "processInput mapperA cloudA (translationX 0) 0 = (Returned mapperA1, cloudA)"
proof -
  have "snd (processInput mapperA cloudA (translationX 0) 0) = cloudA"
    by (simp add: processInput_empty mapperA_fields cloudA_def distanceLimitFilter_one_point)
  moreover have "fst (processInput mapperA cloudA (translationX 0) 0) = Returned mapperA1"
    by (simp add: runA1 mapperA1_eq)
  ultimately show ?thesis by (simp add: prod_eq_iff)
qed

lemma runA2_full:
  "processInput mapperA1 cloudA (translationX 100) 1 = (Returned mapperA2, cloudA)"
  by (simp add: runA2 mapperA2_eq)

lemma icpA_empty:
  "icp mapperA1 (icpReference mapperA1)
     (inputFiltersWorld mapperA1 (transformation mapperA1 emptyDataPoints (translationX d))) = None"
  by (simp add: mapperA1_fields icpA_def emptyDataPoints_def rigidTransformation_empty)

lemma rigidTransformation_cloudFar: "rigidTransformation cloudFar (translationX 0) = cloudFar"
  by (simp add: rigidTransformation_def cloudFar_def translationX_def mat_vec_def dot_def)

lemma icpA_cloudFar:
  "icp mapperA1 (icpReference mapperA1)
     (inputFiltersWorld mapperA1 (transformation mapperA1 cloudFar (translationX 0))) =
   Some (translationX 2, 1)"
  by (simp add: mapperA1_fields rigidTransformation_cloudFar) (simp add: icpA_def cloudFar_def)

lemma runFar:
  "processInput mapperA1 cloudFar (translationX 0) 1 =
     (Returned (mapperA1\<lparr>sensorPose := translationX 2\<rparr>), cloudA)"
  using processInput_icp_Some [OF mapperA1_fields(1) icpA_cloudFar, of 1]
  by (simp add: shouldUpdateMap_def mapperA1_fields mat_mul_translationX
      distanceLimitFilter_cloudFar)

lemma mapperD_fields:
  "isMapEmpty (mapperD p)" "computeProbDynamic (mapperD p)" "priorDynamic (mapperD p) = p"
  "transformation (mapperD p) = rigidTransformation"
  "radiusFilter (mapperD p) = distanceLimitFilter 10"
  "inputFiltersWorld (mapperD p) = (\<lambda>c. c)" "inputFilters (mapperD p) = (\<lambda>c. c)"
  "mapPostFilters (mapperD p) = (\<lambda>c. c)" "icp (mapperD p) = icpA"
  "sensorPose (mapperD p) = translationX 0"
  by (simp_all add: mapperD_def Mapper_ctor_def mat_identity_3)

lemma firstMap_mapperD: "firstMap (mapperD p) cloudB (translationX 0) = cloudB1 p"
  by (simp add: firstMap_def mapperD_fields Let_def cloudB_def cloudB1_def
      mat_inverse_translationX rigidTransformation_translationX addDescriptor_def)

lemma descriptorExists_cloudB1: "descriptorExists (cloudB1 p) ''normals''"
  by (simp add: descriptorExists_def cloudB1_def)

lemma runD1:
  "fst (processInput (mapperD p) cloudB (translationX 0) 0) =
     Returned (committed ((mapperD p)\<lparr>sensorPose := translationX 0, lastTimeMapWasUpdated := 0,
                 lastSensorPoseWhereMapWasUpdated := translationX 0\<rparr>) (cloudB1 p) (translationX 0))"
  by (simp add: processInput_empty_setMap mapperD_fields firstMap_mapperD
      setMap_def Let_def descriptorExists_cloudB1 committed_def)

lemma mapperD1_eq:
  "fst (processInput (mapperD p) cloudB (translationX 0) 0) = Returned (mapperD1 p)"
  by (simp add: mapperD1_def runD1)

lemma map_mapperD1: "map' (mapperD1 p) = cloudB1 p"
  by (simp add: mapperD1_def runD1)

lemma rigidTransformation_descriptors [simp]:
  "descriptors (rigidTransformation c T) = descriptors c"
  by (simp add: rigidTransformation_def)

lemma descriptorExists_cloudA: "\<not> descriptorExists cloudA ''normals''"
  by (simp add: descriptorExists_def cloudA_def)

lemma descriptorExists_cloudB: "descriptorExists cloudB ''normals''"
  by (simp add: descriptorExists_def cloudB_def)

lemma minDist_mapperA1: "minDistNewPoint mapperA1 = 3 / 100"
  by (simp add: mapperA1_eq) (simp add: mapperA_def Mapper_ctor_def)

lemma cutMapAround_mapperA1: "cutMapAround mapperA1 cloudA (translationX 0) = cloudA"
  by (simp add: cutMapAround_cloudA mapperA1_fields)

lemma mapperD_params:
  "\<not> is3D (mapperD p)" "sensorMaxRange (mapperD p) = 10" "beamHalfAngle (mapperD p) = 1 / 100"
  "epsilonA (mapperD p) = 1 / 100" "epsilonD (mapperD p) = 1 / 100"
  "alpha (mapperD p) = 8 / 10" "beta (mapperD p) = 99 / 100"
  "thresholdDynamic (mapperD p) = 9 / 10"
  by (simp_all add: mapperD_def Mapper_ctor_def)

lemma angleColumn_on_axis: "0 < x \<Longrightarrow> angleColumn (mapperD p) [x, 0, 1] = [0, 0]"
  by (simp add: angleColumn_def mapperD_params atan2_def)

lemma updatedRow_behind:
  "updatedRow (mapperD p) (cloudAt 2) [1, 0, 1] [1, 0] [6 / 10] = [3370000 / 3370163]"
  by (simp add: updatedRow_def cloudAt_def angleColumn_on_axis nearestWithin_def sqdist_def
      headEuclidean_def vec_sub_def norm_vec_on_axis mapperD_params gate_spec_def Let_def
      posterior_spec_def w_v_spec_def w_d1_spec_def w_d2_spec_def w_p2_spec_def
      normalized_def dot_def eps_def)

lemma updatedRow_in_front:
  "updatedRow (mapperD p) (cloudAt (1 / 2)) [1, 0, 1] [1, 0] [6 / 10] = [6 / 10]"
  by (simp add: updatedRow_def cloudAt_def angleColumn_on_axis nearestWithin_def sqdist_def
      headEuclidean_def vec_sub_def norm_vec_on_axis mapperD_params gate_spec_def Let_def)

lemma singleton_view: "length xs = Suc 0 \<Longrightarrow> xs ! 0 = x \<Longrightarrow> xs = [x]"
  by (cases xs) auto

lemma setDescriptorView_cloudB1:
  "setDescriptorView (cloudB1 p) ''probabilityDynamic'' [[q]] = cloudB1 q"
  by (simp add: setDescriptorView_def cloudB1_def)

lemma cloudB1_shape:
  "rigidTransformation (cloudB1 p) (translationX 0) = cloudB1 p"
  "getNbPoints (cloudB1 p) = 1" "wellFormed (cloudB1 p)"
  "getDescriptorViewByName (cloudB1 p) ''probabilityDynamic'' = Some [[p]]"
  "getDescriptorViewByName (cloudB1 p) ''normals'' = Some [[1, 0]]"
  "features (cloudB1 p) = [[1, 0, 1]]"
  by (simp_all add: cloudB1_def rigidTransformation_translationX getNbPoints_def wellFormed_def
      getDescriptorViewByName_def)

lemma cloudAt_shape:
  "rigidTransformation (cloudAt x) (translationX 0) = cloudAt x" "features (cloudAt x) \<noteq> []"
  by (simp_all add: cloudAt_def rigidTransformation_translationX)

text \<open>
  With \<open>\<alpha> = 1\<close> and \<open>\<beta> = 0\<close>, both in \<open>[0, 1]\<close>, the update takes a map point from the
  probability 3/5 to 0: the quotient of the update is not kept in \<open>[\<epsilon>, 1 - \<epsilon>]\<close> either.
\<close>

lemma mapperE_params:
  "\<not> is3D mapperE" "sensorMaxRange mapperE = 10" "beamHalfAngle mapperE = 1 / 100"
  "epsilonA mapperE = 1 / 100" "epsilonD mapperE = 1 / 100"
  "alpha mapperE = 1" "beta mapperE = 0"
  "thresholdDynamic mapperE = 9 / 10" "transformation mapperE = rigidTransformation"
  by (simp_all add: mapperE_def Mapper_ctor_def)

lemma dynamicStep_leaves_range:
  "dynamicStep mapperE (cloudAt 2) (cloudB1 (3 / 5)) [0] [Some (0, 0)] [[1, 0]] [[3 / 5]] 0 =
     [[0]]"
  by (simp add: dynamicStep_def cloudAt_def cloudB1_def headEuclidean_def vec_sub_def
      norm_vec_on_axis mapperE_params Let_def normalized_def dot_def eps_def)

lemma computeProbability_leaves_range:
  "computeProbabilityOfPointsBeingDynamic mapperE (cloudAt 2) (cloudB1 (3 / 5)) (translationX 0) =
     Inr (cloudB1 0)"
proof -
  have angle: "snd (convertToSphericalCoordinates mapperE (cloudAt 2)) = [[0, 0]]"
    "snd (convertToSphericalCoordinates mapperE (cloudB1 p)) = [[0, 0]]" for p
    by (simp_all add: snd_convertToSphericalCoordinates angleColumn_def mapperE_params atan2_def
        cloudAt_def cloudB1_def)
  have cut: "cutLoop mapperE (cloudB1 p) (Suc 0) = (cloudB1 p, [0], Suc 0)" for p
    by (simp add: cutLoop_def cutStep_def cloudB1_def headEuclidean_def norm_vec_on_axis
        mapperE_params setColFrom_def)
  have resize: "conservativeResize (cloudB1 p) (Suc 0) = cloudB1 p" for p
    by (simp add: conservativeResize_def cloudB1_def)
  show ?thesis
    unfolding computeProbabilityOfPointsBeingDynamic_def
    by (simp add: mapperE_params mat_inverse_translationX cloudB1_shape cloudAt_shape cut
        resize angle nearestWithin_def sqdist_def dynamicStep_leaves_range
        setDescriptorView_cloudB1 Let_def)
qed

subsection \<open>What no operation writes\<close>

text \<open>
  The transformation, the radius filter and \<open>sensorMaxRange\<close> are set by the constructor and
  written by no operation.
\<close>

lemma Mapper_ctor_collaborators:
  "transformation (Mapper_ctor icpConfig f1 f2 f3 cond ov de di mdnp rng prior th bha ea ed al be
      d3 onl cpd mapping) = rigidTransformation"
  "radiusFilter (Mapper_ctor icpConfig f1 f2 f3 cond ov de di mdnp rng prior th bha ea ed al be
      d3 onl cpd mapping) =
   distanceLimitFilter (to_string_value (sensorMaxRange (Mapper_ctor icpConfig f1 f2 f3 cond ov de
      di mdnp rng prior th bha ea ed al be d3 onl cpd mapping)))"
  by (simp_all add: Mapper_ctor_def)

lemma setMap_collaborators:
  "transformation (mapperOf (setMap m newMap pose)) = transformation m \<and>
   radiusFilter (mapperOf (setMap m newMap pose)) = radiusFilter m \<and>
   sensorMaxRange (mapperOf (setMap m newMap pose)) = sensorMaxRange m"
  by (simp add: setMap_def Let_def)

lemma buildMap_collaborators:
  "transformation (mapperOf (buildMap m ci cm pose)) = transformation m \<and>
   radiusFilter (mapperOf (buildMap m ci cm pose)) = radiusFilter m \<and>
   sensorMaxRange (mapperOf (buildMap m ci cm pose)) = sensorMaxRange m"
  unfolding buildMap_def Let_def
  by (simp add: setMap_collaborators split: sum.splits)

lemma updateMap_collaborators:
  "transformation (mapperOf (updateMap m ci t)) = transformation m \<and>
   radiusFilter (mapperOf (updateMap m ci t)) = radiusFilter m \<and>
   sensorMaxRange (mapperOf (updateMap m ci t)) = sensorMaxRange m"
  unfolding updateMap_def Let_def
  by (simp add: buildMap_collaborators)

lemma processInput_collaborators:
  "transformation (mapperOf (fst (processInput m input guess t))) = transformation m \<and>
   radiusFilter (mapperOf (fst (processInput m input guess t))) = radiusFilter m \<and>
   sensorMaxRange (mapperOf (fst (processInput m input guess t))) = sensorMaxRange m"
  unfolding processInput_def Let_def
  by (simp add: updateMap_collaborators split: option.splits sum.splits bool.splits prod.splits)

lemma mapBuilderTask_collaborators:
  "transformation (mapBuilderTask m) = transformation m \<and>
   radiusFilter (mapBuilderTask m) = radiusFilter m \<and>
   sensorMaxRange (mapBuilderTask m) = sensorMaxRange m"
proof (cases "mapBuilderFuture m")
  case (Running ci cm pose)
  then show ?thesis
    using buildMap_collaborators [of m ci cm pose]
    by (cases "buildMap m ci cm pose") (simp_all add: mapBuilderTask_def)
qed (simp_all add: mapBuilderTask_def)

lemma getNewMap_collaborators:
  "transformation (snd (snd (getNewMap m mapOut))) = transformation m \<and>
   radiusFilter (snd (snd (getNewMap m mapOut))) = radiusFilter m \<and>
   sensorMaxRange (snd (snd (getNewMap m mapOut))) = sensorMaxRange m"
  by (simp add: getNewMap_def)

subsection \<open>More of the worked run\<close>

text \<open>The first observation with a near and a far point; the run with a post filter.\<close>

lemma translationX_round_trip:
  "mat_vec (translationX d) (mat_vec (mat_inverse (translationX d)) [x, y, z]) = [x, y, z]"
  by (simp add: mat_inverse_translationX) (simp add: translationX_def mat_vec_def dot_def)

lemma firstMap_cloudFar: "firstMap mapperA cloudFar (translationX 0) = cloudFar"
  by (simp add: firstMap_def mapperA_fields Let_def mat_inverse_translationX
      rigidTransformation_cloudFar)

lemma cutMapAround_cloudFar:
  "transformation m = rigidTransformation \<Longrightarrow> radiusFilter m = distanceLimitFilter 10 \<Longrightarrow>
   cutMapAround m cloudFar (translationX 0) = cloudA"
  by (simp add: cutMapAround_def Let_def mat_inverse_translationX rigidTransformation_cloudFar
      distanceLimitFilter_cloudFar)
     (simp add: cloudA_def rigidTransformation_translationX)

lemma getNbPoints_cloudFar: "getNbPoints cloudFar = 2"
  by (simp add: cloudFar_def getNbPoints_def)

lemma runF1:
  "fst (processInput mapperA cloudFar (translationX 0) 0) =
     Returned (mapperA\<lparr>sensorPose := translationX 0, lastTimeMapWasUpdated := 0,
                 lastSensorPoseWhereMapWasUpdated := translationX 0,
                 icpReference := cloudA, map' := cloudFar, newMapAvailable := True,
                 isMapEmpty := False\<rparr>)"
  by (simp add: processInput_empty_setMap mapperA_fields firstMap_cloudFar
      setMap_def Let_def cutMapAround_cloudFar getNbPoints_cloudFar)

lemma mapperF1_eq:
  "mapperF1 = mapperA\<lparr>sensorPose := translationX 0, lastTimeMapWasUpdated := 0,
                lastSensorPoseWhereMapWasUpdated := translationX 0,
                icpReference := cloudA, map' := cloudFar, newMapAvailable := True,
                isMapEmpty := False\<rparr>"
  by (simp add: mapperF1_def runF1)

lemma runF1_full:
  "processInput mapperA cloudFar (translationX 0) 0 = (Returned mapperF1, cloudA)"
proof -
  have "snd (processInput mapperA cloudFar (translationX 0) 0) = cloudA"
    by (simp add: processInput_empty mapperA_fields distanceLimitFilter_cloudFar)
  moreover have "fst (processInput mapperA cloudFar (translationX 0) 0) = Returned mapperF1"
    by (simp add: runF1 mapperF1_eq)
  ultimately show ?thesis by (simp add: prod_eq_iff)
qed

lemma mapperF1_fields:
  "icpReference mapperF1 = cloudA" "map' mapperF1 = cloudFar"
  "sensorPose mapperF1 = translationX 0" "sensorMaxRange mapperF1 = 10"
  by (simp_all add: mapperF1_eq mapperA_fields) (simp_all add: mapperA_def Mapper_ctor_def)

lemma mapperA_range:
  "sensorMaxRange mapperA = 10" "sensorMaxRange mapperA1 = 10"
  by (simp_all add: mapperA1_eq) (simp_all add: mapperA_def Mapper_ctor_def)



lemma getNbPoints_rigidTransformation [simp]:
  "getNbPoints (rigidTransformation c T) = getNbPoints c"
  by (simp add: rigidTransformation_def getNbPoints_def)

text \<open>A filter that selects columns hands each surviving point's row on as it is.\<close>

lemma selectColumns_keeps_rows:
  assumes "getDescriptorViewByName c name = Some view" and "length view = getNbPoints c"
    and "\<forall>i \<in> set idx. i < getNbPoints c"
  shows "\<exists>view'. getDescriptorViewByName (selectColumns c idx) name = Some view' \<and>
                 length view' = getNbPoints (selectColumns c idx) \<and> set view' \<subseteq> set view"
  using assms by (auto simp: view_selectColumns getNbPoints_selectColumns)

lemma distanceLimitFilter_keeps_rows:
  assumes "getDescriptorViewByName c name = Some view" and "length view = getNbPoints c"
  shows "\<exists>view'. getDescriptorViewByName (distanceLimitFilter r c) name = Some view' \<and>
                 length view' = getNbPoints (distanceLimitFilter r c) \<and> set view' \<subseteq> set view"
  unfolding distanceLimitFilter_def
  by (rule selectColumns_keeps_rows [OF assms]) simp

lemma mapperP_fields:
  "isMapEmpty mapperP" "computeProbDynamic mapperP" "priorDynamic mapperP = 6 / 10"
  "transformation mapperP = rigidTransformation"
  "radiusFilter mapperP = distanceLimitFilter 10"
  "inputFiltersWorld mapperP = (\<lambda>c. c)" "inputFilters mapperP = (\<lambda>c. c)"
  "mapPostFilters mapperP = distanceLimitFilter 5" "icp mapperP = icpA"
  "sensorPose mapperP = translationX 0"
  by (simp_all add: mapperP_def Mapper_ctor_def mat_identity_3)

lemma rigidTransformation_identity:
  "rigidTransformation \<lparr>features = [[x, y, 1], [x', y', 1]], descriptors = ds\<rparr> (translationX 0) =
     \<lparr>features = [[x, y, 1], [x', y', 1]], descriptors = ds\<rparr>"
  by (simp add: rigidTransformation_def translationX_def mat_vec_def dot_def)

lemma rigidTransformation_cloudPair: "rigidTransformation cloudPair (translationX 0) = cloudPair"
  by (simp add: cloudPair_def rigidTransformation_identity)

lemma addDescriptor_cloudPair:
  "addDescriptor cloudPair ''probabilityDynamic'' (replicate (length (features cloudPair)) [p]) =
     \<lparr>features = [[1, 0, 1], [50, 0, 1]],
      descriptors = [(''normals'', [[1, 0], [0, 1]]), (''probabilityDynamic'', [[p], [p]])]\<rparr>"
  by (simp add: cloudPair_def addDescriptor_def numeral_2_eq_2)

lemma distanceLimitFilter_pair:
  "distanceLimitFilter 5
     \<lparr>features = [[1, 0, 1], [50, 0, 1]],
      descriptors = [(''normals'', [[1, 0], [0, 1]]), (''probabilityDynamic'', [[p], [p]])]\<rparr> =
   cloudB1 p"
  by (simp add: distanceLimitFilter_def selectColumns_def getNbPoints_def headEuclidean_def
      norm_vec_on_axis cloudB1_def upt_rec)

lemma rigidTransformation_cloudB1: "rigidTransformation (cloudB1 p) (translationX 0) = cloudB1 p"
  by (simp add: cloudB1_def rigidTransformation_translationX)

lemma firstMap_mapperP: "firstMap mapperP cloudPair (translationX 0) = cloudB1 (6 / 10)"
  unfolding firstMap_def Let_def
  by (simp only: mapperP_fields mat_inverse_translationX minus_zero rigidTransformation_cloudPair
      addDescriptor_cloudPair rigidTransformation_identity distanceLimitFilter_pair
      rigidTransformation_cloudB1 if_True)

lemma runP1:
  "fst (processInput mapperP cloudPair (translationX 0) 0) =
     Returned (committed (mapperP\<lparr>sensorPose := translationX 0, lastTimeMapWasUpdated := 0,
                 lastSensorPoseWhereMapWasUpdated := translationX 0\<rparr>)
                 (cloudB1 (6 / 10)) (translationX 0))"
  by (simp add: processInput_empty_setMap mapperP_fields firstMap_mapperP
      setMap_def Let_def descriptorExists_cloudB1 committed_def)

lemma mapperP1_eq:
  "fst (processInput mapperP cloudPair (translationX 0) 0) = Returned mapperP1"
  by (simp add: mapperP1_def runP1)

lemma map_mapperP1: "map' mapperP1 = cloudB1 (6 / 10)"
  by (simp add: mapperP1_def runP1)

text \<open>The run with a sensor range that is not printed as it is.\<close>

lemma to_string_value_small: "to_string_value (3 / 5000000) = 1 / 1000000"
  by (simp add: to_string_value_def round_def)

lemma mapperR_fields:
  "isMapEmpty mapperR" "\<not> computeProbDynamic mapperR"
  "transformation mapperR = rigidTransformation"
  "radiusFilter mapperR = distanceLimitFilter (1 / 1000000)"
  "inputFiltersWorld mapperR = (\<lambda>c. c)" "inputFilters mapperR = (\<lambda>c. c)"
  "mapPostFilters mapperR = (\<lambda>c. c)" "sensorMaxRange mapperR = 3 / 5000000"
  by (simp_all add: mapperR_def Mapper_ctor_def to_string_value_small)

lemma firstMap_mapperR: "firstMap mapperR (cloudAt x) (translationX 0) = cloudAt x"
  by (simp add: firstMap_def mapperR_fields Let_def cloudAt_def mat_inverse_translationX
      rigidTransformation_translationX)

lemma cutMapAround_mapperR:
  "transformation m = rigidTransformation \<Longrightarrow> radiusFilter m = distanceLimitFilter (1 / 1000000) \<Longrightarrow>
   cutMapAround m (cloudAt (1 / 1250000)) (translationX 0) = cloudAt (1 / 1250000)"
  by (simp add: cutMapAround_def cloudAt_def mat_inverse_translationX Let_def
      rigidTransformation_translationX distanceLimitFilter_one_point)

lemma runR1:
  "fst (processInput mapperR (cloudAt (1 / 1250000)) (translationX 0) 0) =
     Returned (committed (mapperR\<lparr>sensorPose := translationX 0, lastTimeMapWasUpdated := 0,
                 lastSensorPoseWhereMapWasUpdated := translationX 0\<rparr>)
                 (cloudAt (1 / 1250000)) (translationX 0))"
  by (simp add: processInput_empty_setMap mapperR_fields firstMap_mapperR
      setMap_def Let_def committed_def)

lemma mapperR1_fields:
  "fst (processInput mapperR (cloudAt (1 / 1250000)) (translationX 0) 0) = Returned mapperR1"
  "icpReference mapperR1 = cloudAt (1 / 1250000)"
  "sensorPose mapperR1 = translationX 0" "sensorMaxRange mapperR1 = 3 / 5000000"
  by (simp_all add: mapperR1_def runR1 mapperR_fields cutMapAround_mapperR)

section \<open>The claims\<close>

subsection \<open>C1: what the ICP reference is cropped around\<close>

text \<open>
  Claim C1 says that after every successful \<^verbatim>\<open>processInput\<close> the ICP reference is the
  current map cropped to \<^verbatim>\<open>sensorMaxRange\<close> of the current \<^verbatim>\<open>sensorPose\<close>, also when no map
  build runs. The code sets the reference only in \<^verbatim>\<open>setMap\<close>. The statement proved here
  is the amended one, for a mapper with the transformation and the radius filter that the
  constructor builds (\<open>Mapper_ctor_collaborators\<close>; no operation writes them,
  \<open>processInput_collaborators\<close>). For every call of \<^verbatim>\<open>processInput\<close> that returns: when a
  map build ran in the call (the map was empty, or the mapper is offline and the policy
  accepted the observation), the ICP reference is the new map cropped around the new
  sensor pose, and its points are the points of the new map within the filter radius of
  the new sensor pose (\<open>pointsWithinRange\<close>), the radius being \<^verbatim>\<open>sensorMaxRange\<close> as printed with
  six decimals; where the pose takes back what its inverse took to the sensor frame (as
  every planar pose with a determinant other than 0 does, \<open>planar_round_trip\<close>), these are
  the columns of
  the map whose distance from the sensor is at most the radius, and no point of the
  reference is farther from the sensor than the radius, so none farther than
  \<^verbatim>\<open>sensorMaxRange\<close> and half a millionth.
  Otherwise the ICP reference and the stored map are what they were before the call, while
  the sensor pose has moved on.
\<close>

theorem processInput_icpReference:
  assumes ret: "processInput m input guess t = (Returned m', buf)"
    and rigid: "transformation m = rigidTransformation"
    and radius: "radiusFilter m = distanceLimitFilter (to_string_value (sensorMaxRange m))"
  shows "(buildRunsInCall m input guess t \<longrightarrow>
            icpReference m' = cutMapAround m' (getMap m') (getSensorPose m') \<and>
            features (icpReference m') =
              pointsWithinRange (to_string_value (sensorMaxRange m')) (getSensorPose m')
                (features (getMap m')) \<and>
            ((\<forall>c \<in> set (features (getMap m')).
                mat_vec (getSensorPose m') (mat_vec (mat_inverse (getSensorPose m')) c) = c) \<longrightarrow>
             features (icpReference m') =
               filter (\<lambda>c. norm_vec (headEuclidean (mat_vec (mat_inverse (getSensorPose m')) c))
                            \<le> to_string_value (sensorMaxRange m'))
                 (features (getMap m')) \<and>
             (\<forall>p \<in> set (features (icpReference m')).
                norm_vec (headEuclidean (mat_vec (mat_inverse (getSensorPose m')) p))
                  \<le> to_string_value (sensorMaxRange m') \<and>
                norm_vec (headEuclidean (mat_vec (mat_inverse (getSensorPose m')) p))
                  \<le> sensorMaxRange m' + 1 / 2000000))) \<and>
         (\<not> buildRunsInCall m input guess t \<longrightarrow>
            icpReference m' = icpReference m \<and> getMap m' = getMap m)"
proof (cases "isMapEmpty m")
  case True
  let ?m1 = "m\<lparr>sensorPose := guess, lastTimeMapWasUpdated := t,
                lastSensorPoseWhereMapWasUpdated := guess\<rparr>"
  from ret True have "setMap ?m1 (firstMap m input guess) guess = Returned m'"
    using processInput_empty_setMap [OF True, of input guess t] by simp
  then have "m' = committed ?m1 (firstMap m input guess) guess"
    by (rule setMap_Returned)
  from crop_of_committed [OF this] rigid radius True show ?thesis
    by (simp add: buildRunsInCall_def)
next
  case False
  show ?thesis
  proof (cases "icp m (icpReference m) (inputFiltersWorld m (transformation m input guess))")
    case None
    with False ret show ?thesis by (simp add: processInput_icp_None)
  next
    case (Some r)
    obtain correction overlap where r: "r = (correction, overlap)" by (cases r)
    let ?m1 = "m\<lparr>sensorPose := mat_mul correction guess\<rparr>"
    let ?should = "shouldUpdateMap ?m1 t (mat_mul correction guess) overlap"
    let ?ci = "transformation m (inputFiltersWorld m (transformation m input guess)) correction"
    have pi: "processInput m input guess t =
        (case ?should of Inl e \<Rightarrow> Threw e ?m1 | Inr True \<Rightarrow> updateMap ?m1 ?ci t
         | Inr False \<Rightarrow> Returned ?m1,
         inputFilters m (radiusFilter m input))"
      using False Some r by (simp add: processInput_icp_Some)
    have brc: "buildRunsInCall m input guess t \<longleftrightarrow> \<not> isOnline m \<and> ?should = Inr True"
      using False Some r by (simp add: buildRunsInCall_def)
    show ?thesis
    proof (cases ?should)
      case (Inl e)
      with pi ret show ?thesis by simp
    next
      case (Inr b)
      show ?thesis
      proof (cases b)
        case no: False
        with Inr pi ret have "m' = ?m1" by simp
        with brc no Inr show ?thesis by (simp add: getMap_def)
      next
        case yes: True
        with Inr pi ret have um: "updateMap ?m1 ?ci t = Returned m'" by simp
        show ?thesis
        proof (cases "isOnline m")
          case True
          with um False have "m' = ?m1\<lparr>lastTimeMapWasUpdated := t,
              lastSensorPoseWhereMapWasUpdated := sensorPose ?m1,
              mapBuilderFuture := Running ?ci (map' ?m1) (sensorPose ?m1)\<rparr>"
            by (simp add: updateMap_async)
          with brc True show ?thesis by (simp add: getMap_def)
        next
          case off: False
          let ?m2 = "?m1\<lparr>lastTimeMapWasUpdated := t,
              lastSensorPoseWhereMapWasUpdated := sensorPose ?m1\<rparr>"
          from um off have "buildMap ?m2 ?ci (map' ?m1) (sensorPose ?m1) = Returned m'"
            by (simp add: updateMap_sync)
          then obtain newMap where "m' = committed ?m2 newMap (sensorPose ?m1)"
            by (auto dest!: buildMap_Returned)
          from crop_of_committed [OF this] rigid radius brc off yes Inr show ?thesis
            by simp
        qed
      qed
    qed
  qed
qed

text \<open>
  The witness: the first observation of a near and a far point builds; the map holds both
  points, the reference only the near one, which lies within the range 10 of the sensor.
  The second observation of the worked run does not build, and reference and map stay.
\<close>

theorem processInput_icpReference_witness:
  "buildRunsInCall mapperA cloudFar (translationX 0) 0 \<and>
   features (getMap mapperF1) = [[1, 0, 1], [50, 0, 1]] \<and>
   getSensorPose mapperF1 = translationX 0 \<and>
   sensorMaxRange mapperF1 = 10 \<and>
   icpReference mapperF1 = cutMapAround mapperF1 (getMap mapperF1) (getSensorPose mapperF1) \<and>
   features (icpReference mapperF1) = [[1, 0, 1]] \<and>
   pointsWithinRange 10 (translationX 0) [[1, 0, 1], [50, 0, 1]] = [[1, 0, 1]] \<and>
   filter (\<lambda>c. norm_vec (headEuclidean (mat_vec (mat_inverse (translationX 0)) c)) \<le> 10)
     [[1, 0, 1], [50, 0, 1]] = [[1, 0, 1]] \<and>
   to_string_value (sensorMaxRange mapperF1) = 10 \<and>
   norm_vec (headEuclidean (mat_vec (mat_inverse (translationX 0)) [1, 0, 1])) \<le> 10 \<and>
   \<not> buildRunsInCall mapperA1 cloudA (translationX 100) 1 \<and>
   icpReference mapperA2 = icpReference mapperA1 \<and> getMap mapperA2 = getMap mapperA1"
proof -
  have b1: "buildRunsInCall mapperA cloudFar (translationX 0) 0"
    by (simp add: buildRunsInCall_def mapperA_fields)
  have b2: "\<not> buildRunsInCall mapperA1 cloudA (translationX 100) 1"
    by (simp add: buildRunsInCall_def mapperA1_fields(1,3,4) icpA_cloudA shouldUpdateMap_def)
  have r0: "radiusFilter mapperA = distanceLimitFilter (to_string_value (sensorMaxRange mapperA))"
    by (simp add: mapperA_fields mapperA_range)
  have r1: "radiusFilter mapperA1 = distanceLimitFilter (to_string_value (sensorMaxRange mapperA1))"
    by (simp add: mapperA1_fields)
  have vals: "features (getMap mapperF1) = [[1, 0, 1], [50, 0, 1]]"
    "getSensorPose mapperF1 = translationX 0" "sensorMaxRange mapperF1 = 10"
    "features (icpReference mapperF1) = [[1, 0, 1]]"
    by (simp_all add: getMap_def getSensorPose_def mapperF1_fields cloudFar_def cloudA_def)
  have rt: "\<forall>c \<in> set (features (getMap mapperF1)).
      mat_vec (getSensorPose mapperF1) (mat_vec (mat_inverse (getSensorPose mapperF1)) c) = c"
    unfolding vals by (simp add: translationX_round_trip)
  note build = processInput_icpReference [OF runF1_full mapperA_fields(5) r0]
  note stay = processInput_icpReference [OF runA2_full mapperA1_fields(5) r1]
  from build b1
  have crop: "icpReference mapperF1 =
      cutMapAround mapperF1 (getMap mapperF1) (getSensorPose mapperF1)"
    and pw: "features (icpReference mapperF1) =
      pointsWithinRange (to_string_value (sensorMaxRange mapperF1)) (getSensorPose mapperF1)
        (features (getMap mapperF1))"
    by blast+
  from build b1 rt
  have fl: "features (icpReference mapperF1) =
      filter (\<lambda>c. norm_vec (headEuclidean (mat_vec (mat_inverse (getSensorPose mapperF1)) c))
                   \<le> to_string_value (sensorMaxRange mapperF1))
        (features (getMap mapperF1))"
    and bd: "\<forall>p \<in> set (features (icpReference mapperF1)).
      norm_vec (headEuclidean (mat_vec (mat_inverse (getSensorPose mapperF1)) p))
        \<le> to_string_value (sensorMaxRange mapperF1)"
    by blast+
  from stay b2
  have same: "icpReference mapperA2 = icpReference mapperA1" "getMap mapperA2 = getMap mapperA1"
    by blast+
  have pw': "pointsWithinRange 10 (translationX 0) [[1, 0, 1], [50, 0, 1]] = [[1, 0, 1]]"
    using pw [unfolded vals to_string_value_10] by (rule sym)
  have fl': "filter (\<lambda>c. norm_vec (headEuclidean (mat_vec (mat_inverse (translationX 0)) c)) \<le> 10)
     [[1, 0, 1], [50, 0, 1]] = [[1, 0, 1]]"
    using fl [unfolded vals to_string_value_10] by (rule sym)
  have bd': "norm_vec (headEuclidean (mat_vec (mat_inverse (translationX 0)) [1, 0, 1])) \<le> 10"
    using bd unfolding vals by simp
  have radius: "to_string_value (sensorMaxRange mapperF1) = 10"
    unfolding vals by simp
  from b1 b2 vals crop same pw' fl' radius bd' show ?thesis
    by (intro conjI)
qed

text \<open>
  The counterexample to C1 as it is stated, in two parts. First, a call without a build.
  The map is the single point (1, 0), stored with the sensor at the origin; the sensor
  range is 10. The second observation is taken with the pose guess 100 along x; ICP
  returns, the policy declines (\<open>isMapping\<close> is false), and the call returns with the sensor
  pose at 101. The ICP reference still holds the point, which now lies 100 from the
  sensor; the map cropped around the current pose is empty. Second, a call with a build.
  The sensor range is 0.0000006, which the constructor prints as 0.000001 for the radius
  filter. The first observation is a point at 0.0000008 from the sensor: the call builds,
  and the ICP reference holds the point, farther from the sensor than the sensor range.
\<close>

theorem icpReference_not_cropped_to_current_pose:
  "fst (processInput mapperA1 cloudA (translationX 100) 1) = Returned mapperA2 \<and>
   shouldUpdateMap (mapperA1\<lparr>sensorPose := translationX 101\<rparr>) 1 (translationX 101) 1 =
     Inr False \<and>
   getSensorPose mapperA2 = translationX 101 \<and>
   getMap mapperA2 = cloudA \<and>
   icpReference mapperA2 = cloudA \<and>
   cutMapAround mapperA2 (getMap mapperA2) (getSensorPose mapperA2) = emptyDataPoints \<and>
   icpReference mapperA2 \<noteq> cutMapAround mapperA2 (getMap mapperA2) (getSensorPose mapperA2) \<and>
   sensorMaxRange mapperA2 <
     norm_vec (headEuclidean (mat_vec (mat_inverse (getSensorPose mapperA2))
                                (features (icpReference mapperA2) ! 0))) \<and>
   buildRunsInCall mapperR (cloudAt (1 / 1250000)) (translationX 0) 0 \<and>
   fst (processInput mapperR (cloudAt (1 / 1250000)) (translationX 0) 0) = Returned mapperR1 \<and>
   sensorMaxRange mapperR1 = 3 / 5000000 \<and>
   features (icpReference mapperR1) = [[1 / 1250000, 0, 1]] \<and>
   sensorMaxRange mapperR1 <
     norm_vec (headEuclidean (mat_vec (mat_inverse (getSensorPose mapperR1))
                                (features (icpReference mapperR1) ! 0)))"
proof -
  have noBuild:
    "fst (processInput mapperA1 cloudA (translationX 100) 1) = Returned mapperA2 \<and>
     shouldUpdateMap (mapperA1\<lparr>sensorPose := translationX 101\<rparr>) 1 (translationX 101) 1 =
       Inr False \<and>
     getSensorPose mapperA2 = translationX 101 \<and>
     getMap mapperA2 = cloudA \<and>
     icpReference mapperA2 = cloudA \<and>
     cutMapAround mapperA2 (getMap mapperA2) (getSensorPose mapperA2) = emptyDataPoints \<and>
     icpReference mapperA2 \<noteq> cutMapAround mapperA2 (getMap mapperA2) (getSensorPose mapperA2) \<and>
     sensorMaxRange mapperA2 <
       norm_vec (headEuclidean (mat_vec (mat_inverse (getSensorPose mapperA2))
                                  (features (icpReference mapperA2) ! 0)))"
    apply (simp add: runA2 mapperA2_eq getSensorPose_def getMap_def mapperA1_fields
        cutMapAround_cloudA emptyDataPoints_def shouldUpdateMap_def)
    apply (simp add: cloudA_def mat_inverse_translationX)
    apply (simp add: translationX_def mat_vec_def dot_def headEuclidean_def norm_vec_on_axis)
    done
  have build:
    "buildRunsInCall mapperR (cloudAt (1 / 1250000)) (translationX 0) 0 \<and>
     fst (processInput mapperR (cloudAt (1 / 1250000)) (translationX 0) 0) = Returned mapperR1 \<and>
     sensorMaxRange mapperR1 = 3 / 5000000 \<and>
     features (icpReference mapperR1) = [[1 / 1250000, 0, 1]] \<and>
     sensorMaxRange mapperR1 <
       norm_vec (headEuclidean (mat_vec (mat_inverse (getSensorPose mapperR1))
                                  (features (icpReference mapperR1) ! 0)))"
    apply (simp add: buildRunsInCall_def mapperR_fields mapperR1_fields getSensorPose_def)
    apply (simp add: cloudAt_def mat_inverse_translationX)
    apply (simp add: translationX_def mat_vec_def dot_def headEuclidean_def norm_vec_on_axis)
    done
  from noBuild build show ?thesis
    by blast
qed

subsection \<open>C2: what the ICP operator is handed\<close>

text \<open>
  Claim C2 says that the cloud passed to the ICP operator has been through the radius
  filter and the sensor-frame input filters. In \<^verbatim>\<open>processInput\<close> the map-frame cloud is
  computed from the observation before these filters run, and the filtered cloud is not
  read again. In the worked run the observation holds a point at 1 and a point at 50, the
  sensor range being 10: the radius filter leaves one point in the caller's cloud, and the
  ICP operator, which answers with the number of points it was handed, answers 2.
\<close>

theorem processInput_icp_input_not_filtered:
  "radiusFilter mapperA1 cloudFar = cloudA \<and>
   snd (processInput mapperA1 cloudFar (translationX 0) 1) = cloudA \<and>
   inputFiltersWorld mapperA1 (transformation mapperA1 cloudFar (translationX 0)) = cloudFar \<and>
   icp mapperA1 (icpReference mapperA1) cloudFar = Some (translationX 2, 1) \<and>
   icp mapperA1 (icpReference mapperA1) cloudA = Some (translationX 1, 1) \<and>
   getSensorPose (mapperOf (fst (processInput mapperA1 cloudFar (translationX 0) 1))) =
     translationX 2"
  by (simp add: runFar getSensorPose_def mapperA1_fields distanceLimitFilter_cloudFar
      rigidTransformation_cloudFar)
     (simp add: icpA_def cloudFar_def cloudA_def)

subsection \<open>C3: the sensor pose after a call\<close>

text \<open>
  Claim C3. For every call of \<^verbatim>\<open>processInput\<close> that returns: on an empty map
  \<^verbatim>\<open>getSensorPose\<close> is afterwards the pose guess itself; on a map that is not empty the ICP
  operator returned a correction for that call and \<^verbatim>\<open>getSensorPose\<close> is afterwards
  the product of the correction and the pose guess.
\<close>

theorem processInput_sensorPose:
  assumes "processInput m input guess t = (Returned m', buf)"
  shows "(isMapEmpty m \<longrightarrow> getSensorPose m' = guess) \<and>
         (\<not> isMapEmpty m \<longrightarrow>
            (\<exists>correction overlap.
               icp m (icpReference m) (inputFiltersWorld m (transformation m input guess)) =
                 Some (correction, overlap) \<and>
               getSensorPose m' = mat_mul correction guess))"
proof (cases "isMapEmpty m")
  case True
  with assms have "updateMap (m\<lparr>sensorPose := guess\<rparr>)
      (inputFiltersWorld m (transformation m input guess)) t = Returned m'"
    by (simp add: processInput_empty)
  from updateMap_sensorPose [OF this] True show ?thesis
    by (simp add: getSensorPose_def)
next
  case False
  show ?thesis
  proof (cases "icp m (icpReference m) (inputFiltersWorld m (transformation m input guess))")
    case None
    with False assms show ?thesis by (simp add: processInput_icp_None)
  next
    case (Some r)
    obtain correction overlap where r: "r = (correction, overlap)" by (cases r)
    from assms False Some r have "sensorPose m' = mat_mul correction guess"
      by (auto simp: processInput_icp_Some split: sum.splits bool.splits
          dest!: updateMap_sensorPose)
    with False Some r show ?thesis by (simp add: getSensorPose_def)
  qed
qed

theorem processInput_sensorPose_witness:
  "processInput mapperA cloudA (translationX 0) 0 = (Returned mapperA1, cloudA) \<and>
   getSensorPose mapperA1 = translationX 0 \<and>
   processInput mapperA1 cloudA (translationX 100) 1 = (Returned mapperA2, cloudA) \<and>
   getSensorPose mapperA2 = mat_mul (translationX 1) (translationX 100)"
  using processInput_sensorPose [OF runA1_full] processInput_sensorPose [OF runA2_full]
    mapperA_fields(1) mapperA1_fields(1) icpA_cloudA [of 100] runA1_full runA2_full
  by auto

subsection \<open>C4: the novelty filter\<close>




text \<open>
  An input point that coincides with a map point. The map and the input are the point
  (1, 0). The search, without the option to match a point with itself, finds no other
  point; the entry is unmatched, its distance infinite, and the point is kept, although a
  point of the map lies at the distance 0 from it.
\<close>

lemma coincident_point_is_kept:
  "sqdist [1, 0] [1, 0, 1] = 0 \<and>
   0 < (minDistNewPoint mapperA1)\<^sup>2 \<and>
   retrievePointsFurtherThanMinDistNewPoint mapperA1 cloudA cloudA (translationX 0) = Inr cloudA"
  apply (simp add: minDist_mapperA1 sqdist_def)
  apply (simp add: retrievePointsFurtherThanMinDistNewPoint_def Let_def cutMapAround_mapperA1)
  apply (simp add: cloudA_def headEuclidean_def nearestNoSelfMatch_def sqdist_def getNbPoints_def
      goodStep_def createSimilarEmpty_def setColFrom_def conservativeResize_def)
  done

subsection \<open>C5: the range of the dynamic probabilities\<close>

text \<open>
  Claim C5 says that with \<^verbatim>\<open>computeProbDynamic\<close> every point of the stored map carries a
  \<^verbatim>\<open>probabilityDynamic\<close> in \<open>[\<epsilon>, 1 - \<epsilon>]\<close>, for every prior in \<open>[0, 1]\<close>, and that the map carries
  normals. The code stores the prior as it is. The statement proved here is the amended
  one. With \<^verbatim>\<open>computeProbDynamic\<close> enabled, every map that a returning \<^verbatim>\<open>setMap\<close> stores
  carries normals; and the first build (a call of \<^verbatim>\<open>processInput\<close> that finds the map empty
  and returns, with the rigid transformation and a post-filter chain that hands on the
  \<^verbatim>\<open>probabilityDynamic\<close> row of every point it keeps, as a chain that only drops points does:
  \<open>selectColumns_keeps_rows\<close>, \<open>distanceLimitFilter_keeps_rows\<close>) stores a map that carries
  normals and a \<^verbatim>\<open>probabilityDynamic\<close> descriptor with one row for each stored point, and every
  such row is \<^verbatim>\<open>priorDynamic\<close>; so the value of every stored point lies in \<open>[\<epsilon>, 1 - \<epsilon>]\<close> when
  the prior does. Nothing is stated of later builds: the update of a later build can leave
  the interval (\<open>computeProbability_leaves_range\<close> above), and a map handed to \<^verbatim>\<open>setMap\<close> from
  outside is stored as it comes.
\<close>

theorem first_map_probabilityDynamic:
  assumes cpd: "computeProbDynamic m"
  shows "(\<forall>newMap pose m''. setMap m newMap pose = Returned m'' \<longrightarrow>
            descriptorExists (getMap m'') ''normals'') \<and>
         (isMapEmpty m \<and> transformation m = rigidTransformation \<and>
          (\<forall>c view. getDescriptorViewByName c ''probabilityDynamic'' = Some view \<and>
                    length view = getNbPoints c \<longrightarrow>
             (\<exists>view'. getDescriptorViewByName (mapPostFilters m c) ''probabilityDynamic'' =
                        Some view' \<and>
                      length view' = getNbPoints (mapPostFilters m c) \<and>
                      set view' \<subseteq> set view)) \<and>
          fst (processInput m input guess t) = Returned m' \<longrightarrow>
            descriptorExists (getMap m') ''normals'' \<and>
            (\<exists>view. getDescriptorViewByName (getMap m') ''probabilityDynamic'' = Some view \<and>
                    length view = getNbPoints (getMap m') \<and>
                    (\<forall>k < getNbPoints (getMap m'). view ! k = [priorDynamic m]) \<and>
                    (eps \<le> priorDynamic m \<and> priorDynamic m \<le> 1 - eps \<longrightarrow>
                       (\<forall>k < getNbPoints (getMap m'). \<forall>p \<in> set (view ! k).
                          eps \<le> p \<and> p \<le> 1 - eps))))"
proof -
  have stored: "\<forall>newMap pose m''. setMap m newMap pose = Returned m'' \<longrightarrow>
      descriptorExists (getMap m'') ''normals''"
    using cpd by (auto simp: setMap_def Let_def getMap_def split: if_splits)
  have first: "descriptorExists (getMap m') ''normals'' \<and>
      (\<exists>view. getDescriptorViewByName (getMap m') ''probabilityDynamic'' = Some view \<and>
              length view = getNbPoints (getMap m') \<and>
              (\<forall>k < getNbPoints (getMap m'). view ! k = [priorDynamic m]) \<and>
              (eps \<le> priorDynamic m \<and> priorDynamic m \<le> 1 - eps \<longrightarrow>
                 (\<forall>k < getNbPoints (getMap m'). \<forall>p \<in> set (view ! k).
                    eps \<le> p \<and> p \<le> 1 - eps)))"
    if empty: "isMapEmpty m"
      and rigid: "transformation m = rigidTransformation"
      and post: "\<forall>c view. getDescriptorViewByName c ''probabilityDynamic'' = Some view \<and>
                    length view = getNbPoints c \<longrightarrow>
             (\<exists>view'. getDescriptorViewByName (mapPostFilters m c) ''probabilityDynamic'' =
                        Some view' \<and>
                      length view' = getNbPoints (mapPostFilters m c) \<and>
                      set view' \<subseteq> set view)"
      and ret: "fst (processInput m input guess t) = Returned m'"
  proof -
    let ?m1 = "m\<lparr>sensorPose := guess, lastTimeMapWasUpdated := t,
                  lastSensorPoseWhereMapWasUpdated := guess\<rparr>"
    let ?inputInMapFrame = "inputFiltersWorld m (rigidTransformation input guess)"
    let ?N = "length (features ?inputInMapFrame)"
    let ?view = "replicate ?N [priorDynamic m]"
    let ?currentInput = "addDescriptor ?inputInMapFrame ''probabilityDynamic'' ?view"
    let ?c = "rigidTransformation ?currentInput (mat_inverse guess)"
    from ret have sm: "setMap ?m1 (firstMap m input guess) guess = Returned m'"
      using processInput_empty_setMap [OF empty, of input guess t] by simp
    then have m': "map' m' = firstMap m input guess"
      by (auto dest!: setMap_Returned)
    from sm cpd have normals: "descriptorExists (firstMap m input guess) ''normals''"
      by (auto simp: setMap_def Let_def split: if_splits)
    have fm: "firstMap m input guess = rigidTransformation (mapPostFilters m ?c) guess"
      using cpd rigid by (simp add: firstMap_def Let_def)
    have "getDescriptorViewByName ?c ''probabilityDynamic'' = Some ?view"
      by (simp add: getDescriptorViewByName_def addDescriptor_def update_conv')
    moreover have "length ?view = getNbPoints ?c"
      by (simp add: getNbPoints_def addDescriptor_def rigidTransformation_def)
    ultimately obtain view' where
      v1: "getDescriptorViewByName (mapPostFilters m ?c) ''probabilityDynamic'' = Some view'"
      and v2: "length view' = getNbPoints (mapPostFilters m ?c)"
      and v3: "set view' \<subseteq> set ?view"
      using post by blast
    have view: "getDescriptorViewByName (firstMap m input guess) ''probabilityDynamic'' = Some view'"
      using v1 by (simp add: fm getDescriptorViewByName_def)
    have len: "length view' = getNbPoints (firstMap m input guess)"
      using v2 by (simp add: fm)
    have rows: "\<forall>k < getNbPoints (firstMap m input guess). view' ! k = [priorDynamic m]"
    proof (intro allI impI)
      fix k assume "k < getNbPoints (firstMap m input guess)"
      with len have "view' ! k \<in> set view'" by simp
      with v3 show "view' ! k = [priorDynamic m]" by auto
    qed
    from m' normals view len rows show ?thesis
      by (auto simp: getMap_def)
  qed
  from stored first show ?thesis by blast
qed

text \<open>
  The witness: the post filter keeps the points within 5 of the sensor. The first
  observation holds two points, at 1 and at 50; the stored map holds the first, with one
  row of probability, the prior 6/10.
\<close>

theorem first_map_probabilityDynamic_witness:
  "computeProbDynamic mapperP \<and> isMapEmpty mapperP \<and>
   transformation mapperP = rigidTransformation \<and>
   mapPostFilters mapperP = distanceLimitFilter 5 \<and>
   priorDynamic mapperP = 6 / 10 \<and>
   eps \<le> priorDynamic mapperP \<and> priorDynamic mapperP \<le> 1 - eps \<and>
   getNbPoints cloudPair = 2 \<and>
   fst (processInput mapperP cloudPair (translationX 0) 0) = Returned mapperP1 \<and>
   getNbPoints (getMap mapperP1) = 1 \<and>
   descriptorExists (getMap mapperP1) ''normals'' \<and>
   (\<exists>view. getDescriptorViewByName (getMap mapperP1) ''probabilityDynamic'' = Some view \<and>
           length view = 1 \<and> view ! 0 = [6 / 10] \<and>
           (\<forall>p \<in> set (view ! 0). eps \<le> p \<and> p \<le> 1 - eps))"
proof -
  have post: "\<forall>c view. getDescriptorViewByName c ''probabilityDynamic'' = Some view \<and>
                    length view = getNbPoints c \<longrightarrow>
             (\<exists>view'. getDescriptorViewByName (mapPostFilters mapperP c) ''probabilityDynamic'' =
                        Some view' \<and>
                      length view' = getNbPoints (mapPostFilters mapperP c) \<and>
                      set view' \<subseteq> set view)"
    by (simp add: mapperP_fields distanceLimitFilter_keeps_rows)
  have range: "eps \<le> priorDynamic mapperP \<and> priorDynamic mapperP \<le> 1 - eps"
    by (simp add: mapperP_fields eps_def)
  have n: "getNbPoints (getMap mapperP1) = 1" "getNbPoints cloudPair = 2"
    by (simp_all add: getMap_def map_mapperP1 cloudB1_def getNbPoints_def cloudPair_def)
  from first_map_probabilityDynamic [OF mapperP_fields(2),
      where input = cloudPair and guess = "translationX 0" and t = 0 and m' = mapperP1]
    post range mapperP_fields(1,4) mapperP1_eq
  have "descriptorExists (getMap mapperP1) ''normals'' \<and>
        (\<exists>view. getDescriptorViewByName (getMap mapperP1) ''probabilityDynamic'' = Some view \<and>
              length view = getNbPoints (getMap mapperP1) \<and>
              (\<forall>k < getNbPoints (getMap mapperP1). view ! k = [priorDynamic mapperP]) \<and>
                 (\<forall>k < getNbPoints (getMap mapperP1). \<forall>p \<in> set (view ! k).
                    eps \<le> p \<and> p \<le> 1 - eps))"
    by blast
  then show ?thesis
    using range mapperP_fields(1,2,3,4,8) mapperP1_eq n
    by (auto simp: n)
qed

text \<open>
  The counterexample to C5 as it is stated: the prior 0 is in \<open>[0, 1]\<close>, and after the first
  observation the one point of the stored map carries the probability 0, below \<open>\<epsilon>\<close>.
\<close>

theorem probabilityDynamic_below_eps:
  "computeProbDynamic (mapperD 0) \<and>
   0 \<le> priorDynamic (mapperD 0) \<and> priorDynamic (mapperD 0) \<le> 1 \<and>
   fst (processInput (mapperD 0) cloudB (translationX 0) 0) = Returned (mapperD1 0) \<and>
   computeProbDynamic (mapperD1 0) \<and>
   getDescriptorViewByName (getMap (mapperD1 0)) ''probabilityDynamic'' = Some [[0]] \<and>
   \<not> eps \<le> 0"
  by (simp add: mapperD_fields mapperD1_eq getMap_def map_mapperD1 getDescriptorViewByName_def
      cloudB1_def eps_def)
     (simp add: mapperD1_def runD1 committed_def mapperD_fields)

subsection \<open>C6: when \<^verbatim>\<open>setMap\<close> raises\<close>

text \<open>
  Claim C6. \<^verbatim>\<open>setMap\<close> raises exactly when \<^verbatim>\<open>computeProbDynamic\<close> is enabled and the supplied
  cloud has no \<^verbatim>\<open>normals\<close> descriptor; and when it raises, the mapper is as it was before
  the call: the stored map, \<^verbatim>\<open>newMapAvailable\<close>, \<^verbatim>\<open>isMapEmpty\<close> and the ICP reference keep
  their values.
\<close>

theorem setMap_raises_iff:
  "((\<exists>e m'. setMap m newMap newSensorPose = Threw e m') \<longleftrightarrow>
      (computeProbDynamic m \<and> \<not> descriptorExists newMap ''normals'')) \<and>
   (\<forall>e m'. setMap m newMap newSensorPose = Threw e m' \<longrightarrow>
      m' = m \<and> getMap m' = getMap m \<and> newMapAvailable m' = newMapAvailable m \<and>
      isMapEmpty m' = isMapEmpty m \<and> icpReference m' = icpReference m)"
  by (auto simp: setMap_def Let_def)

theorem setMap_raises_iff_witness:
  "computeProbDynamic (mapperD 0) \<and> \<not> descriptorExists cloudA ''normals'' \<and>
   (\<exists>e. setMap (mapperD 0) cloudA (translationX 0) = Threw e (mapperD 0)) \<and>
   descriptorExists cloudB ''normals'' \<and>
   (\<exists>m'. setMap (mapperD 0) cloudB (translationX 0) = Returned m')"
proof -
  have "\<exists>e m'. setMap (mapperD 0) cloudA (translationX 0) = Threw e m'"
    using setMap_raises_iff [of "mapperD 0" cloudA "translationX 0"]
      mapperD_fields(2) descriptorExists_cloudA by blast
  then obtain e m' where thr: "setMap (mapperD 0) cloudA (translationX 0) = Threw e m'"
    by blast
  with setMap_raises_iff [of "mapperD 0" cloudA "translationX 0"] have "m' = (mapperD 0)"
    by blast
  with thr have a: "\<exists>e. setMap (mapperD 0) cloudA (translationX 0) = Threw e (mapperD 0)"
    by blast
  have "\<not> (\<exists>e m'. setMap (mapperD 0) cloudB (translationX 0) = Threw e m')"
    using setMap_raises_iff [of "mapperD 0" cloudB "translationX 0"] descriptorExists_cloudB
    by blast
  then have b: "\<exists>m'. setMap (mapperD 0) cloudB (translationX 0) = Returned m'"
    by (cases "setMap (mapperD 0) cloudB (translationX 0)") auto
  from a b mapperD_fields(2) descriptorExists_cloudA descriptorExists_cloudB
  show ?thesis by blast
qed

subsection \<open>C7: a failing ICP leaves the mapper alone\<close>

text \<open>
  Claim C7. For every call of \<^verbatim>\<open>processInput\<close> on a map that is not empty in which the ICP
  operator raises, the call raises that error and leaves the mapper as it was: the stored
  map and the sensor pose have their values from before the call. Only the caller's
  cloud has been through the radius filter and the input filters.
\<close>

theorem processInput_icp_error:
  assumes "\<not> isMapEmpty m"
    and "icp m (icpReference m) (inputFiltersWorld m (transformation m input guess)) = None"
  shows "\<exists>m'. processInput m input guess t =
                 (Threw CollaboratorFailed m', inputFilters m (radiusFilter m input)) \<and>
               getMap m' = getMap m \<and> getSensorPose m' = getSensorPose m \<and> m' = m"
  using assms by (simp add: processInput_icp_None)

theorem processInput_icp_error_witness:
  "\<not> isMapEmpty mapperA1 \<and>
   icp mapperA1 (icpReference mapperA1) (transformation mapperA1 emptyDataPoints (translationX 5))
     = None \<and>
   fst (processInput mapperA1 emptyDataPoints (translationX 5) 1) =
     Threw CollaboratorFailed mapperA1"
  using processInput_icp_error [OF mapperA1_fields(1) icpA_empty, of 5 1]
    mapperA1_fields(1) icpA_empty [of 5]
  by (auto simp: mapperA1_fields(7))

subsection \<open>C8: the evidence for a dynamic point and the gate\<close>

text \<open>
  Claim C8. Let the map and the input be taken to the sensor frame, the map keep its
  number of points and stay well formed there, the map carry one \<^verbatim>\<open>probabilityDynamic\<close> row
  per point and normals, and the input hold a point. Then
  \<^verbatim>\<open>computeProbabilityOfPointsBeingDynamic\<close> returns the map with a new \<^verbatim>\<open>probabilityDynamic\<close>
  view, and for every map point: if it lies within \<^verbatim>\<open>sensorMaxRange\<close> its row is
  \<open>updatedRow\<close>, the rule as the spec states it (\<open>w_d2\<close> is \<open>\<epsilon>\<close> if \<open>delta < \<epsilon>D\<close> or
  \<open>\<parallel>m\<parallel> > \<parallel>r\<parallel>\<close>, with strict comparisons, else \<open>\<epsilon> + (1 - \<epsilon>) \<cdot> offset / d_max\<close> when
  \<open>offset < d_max\<close>, else 1; the row is written only when \<open>\<parallel>r\<parallel> + \<epsilon>D + d_max \<ge> \<parallel>m\<parallel>\<close>);
  otherwise its row is unchanged.
\<close>

theorem dynamic_probability_update:
  assumes S: "mapInSensorFrame = transformation m currentMap (mat_inverse currentSensorPose)"
    and I: "inputInSensorFrame = transformation m currentInput (mat_inverse currentSensorPose)"
    and size: "getNbPoints mapInSensorFrame = getNbPoints currentMap"
    and wf: "wellFormed mapInSensorFrame"
    and view: "getDescriptorViewByName currentMap ''probabilityDynamic'' = Some view"
    and len: "length view = getNbPoints currentMap"
    and normals: "getDescriptorViewByName mapInSensorFrame ''normals'' = Some normals"
    and input: "features inputInSensorFrame \<noteq> []"
  shows "\<exists>view'.
           computeProbabilityOfPointsBeingDynamic m currentInput currentMap currentSensorPose =
             Inr (setDescriptorView currentMap ''probabilityDynamic'' view') \<and>
           length view' = length view \<and>
           (\<forall>k < getNbPoints currentMap.
              view' ! k =
                (if norm_vec (headEuclidean (features mapInSensorFrame ! k)) < sensorMaxRange m
                 then updatedRow m inputInSensorFrame (features mapInSensorFrame ! k)
                        (normals ! k) (view ! k)
                 else view ! k))"
proof -
  let ?N = "getNbPoints currentMap"
  let ?idx = "keptBelow (withinRange m mapInSensorFrame) ?N"
  let ?view' = "map (\<lambda>k. if k \<in> set ?idx
                   then updatedRow m inputInSensorFrame (features mapInSensorFrame ! k)
                          (normals ! k) (view ! k)
                   else view ! k) [0..<length view]"
  from input obtain a as where angles:
    "map (angleColumn m) (features inputInSensorFrame) = a # as"
    by (cases "features inputInSensorFrame") auto
  have loop1: "cutLoop m mapInSensorFrame ?N =
      (compacted mapInSensorFrame ?idx, moved [0..<?N] (replicate ?N 0) ?idx, length ?idx)"
    by (rule cutLoop_eq [OF wf size])
  have bound: "\<forall>k \<in> set ?idx. k < length view"
    by (simp add: set_keptBelow len)
  have inN: "\<forall>k \<in> set ?idx. k < ?N"
    by (simp add: set_keptBelow)
  note loop2 = dynamicLoop [OF angles distinct_keptBelow bound inN,
      of mapInSensorFrame normals]
  have ret: "computeProbabilityOfPointsBeingDynamic m currentInput currentMap currentSensorPose =
      Inr (setDescriptorView currentMap ''probabilityDynamic'' ?view')"
    unfolding computeProbabilityOfPointsBeingDynamic_def
    by (simp add: S [symmetric] I [symmetric] loop1 conservativeResize_compacted
        snd_convertToSphericalCoordinates angles view view_selectColumns normals
        getNbPoints_selectColumns loop2 Let_def del: map_map)
  have nth: "\<forall>k < ?N. ?view' ! k =
      (if norm_vec (headEuclidean (features mapInSensorFrame ! k)) < sensorMaxRange m
       then updatedRow m inputInSensorFrame (features mapInSensorFrame ! k)
              (normals ! k) (view ! k)
       else view ! k)"
    by (simp add: len set_keptBelow withinRange_def)
  from ret nth show ?thesis
    by (intro exI [of _ ?view']) simp
qed

text \<open>
  The witness: a map point at (1, 0), normal along x, probability 6/10. An input point
  behind it, at (2, 0), opens the gate and gives \<open>w_d2 = 1\<close>; an input point in front of
  it, at (1/2, 0), leaves the gate closed and the probability as it was.
\<close>

theorem dynamic_probability_update_witness:
  "computeProbabilityOfPointsBeingDynamic (mapperD (6 / 10)) (cloudAt 2) (cloudB1 (6 / 10))
     (translationX 0) = Inr (cloudB1 (3370000 / 3370163)) \<and>
   computeProbabilityOfPointsBeingDynamic (mapperD (6 / 10)) (cloudAt (1 / 2)) (cloudB1 (6 / 10))
     (translationX 0) = Inr (cloudB1 (6 / 10))"
proof -
  let ?m = "mapperD (6 / 10)"
  have run: "computeProbabilityOfPointsBeingDynamic ?m (cloudAt x) (cloudB1 (6 / 10))
        (translationX 0) =
      Inr (setDescriptorView (cloudB1 (6 / 10)) ''probabilityDynamic''
             [updatedRow ?m (cloudAt x) [1, 0, 1] [1, 0] [6 / 10]])" for x
  proof -
    have S: "cloudB1 (6 / 10) = transformation ?m (cloudB1 (6 / 10)) (mat_inverse (translationX 0))"
      and I: "cloudAt x = transformation ?m (cloudAt x) (mat_inverse (translationX 0))"
      by (simp_all add: mapperD_fields mat_inverse_translationX cloudB1_shape cloudAt_shape)
    from dynamic_probability_update [OF S I refl cloudB1_shape(3) cloudB1_shape(4) _
        cloudB1_shape(5) cloudAt_shape(2)]
    obtain view' where v:
      "computeProbabilityOfPointsBeingDynamic ?m (cloudAt x) (cloudB1 (6 / 10)) (translationX 0) =
         Inr (setDescriptorView (cloudB1 (6 / 10)) ''probabilityDynamic'' view')"
      "length view' = Suc 0"
      "view' ! 0 = updatedRow ?m (cloudAt x) [1, 0, 1] [1, 0] [6 / 10]"
      by (auto simp: cloudB1_shape norm_vec_on_axis headEuclidean_def mapperD_params)
    from singleton_view [OF v(2) v(3)] v(1) show ?thesis by simp
  qed
  show ?thesis
    unfolding run updatedRow_behind updatedRow_in_front setDescriptorView_cloudB1 by simp
qed

subsection \<open>C9: the first observation\<close>

text \<open>
  Claim C9. A call of \<^verbatim>\<open>processInput\<close> that finds the map empty does not consult the
  update policy: whatever \<^verbatim>\<open>isMapping\<close>, \<^verbatim>\<open>isOnline\<close> and the update condition are, it sets
  the pose and the policy's bookkeeping and hands the first observation to \<^verbatim>\<open>setMap\<close> in
  the call itself. So the call returns unless \<^verbatim>\<open>setMap\<close> refuses the cloud, and when it
  returns the observation is the stored map, a new map is available and nothing was
  handed to the worker. With \<^verbatim>\<open>isMapping\<close> false the stored map is the same.
\<close>

theorem processInput_first_observation:
  assumes "isMapEmpty m"
  shows "fst (processInput m input guess t) =
           setMap (m\<lparr>sensorPose := guess, lastTimeMapWasUpdated := t,
                      lastSensorPoseWhereMapWasUpdated := guess\<rparr>)
             (firstMap m input guess) guess \<and>
         ((\<exists>m'. fst (processInput m input guess t) = Returned m') \<longleftrightarrow>
            \<not> (computeProbDynamic m \<and> \<not> descriptorExists (firstMap m input guess) ''normals'')) \<and>
         (\<forall>m'. fst (processInput m input guess t) = Returned m' \<longrightarrow>
            getMap m' = firstMap m input guess \<and> newMapAvailable m' \<and>
            mapBuilderFuture m' = mapBuilderFuture m) \<and>
         getMap (mapperOf (fst (processInput (m\<lparr>isMapping := False\<rparr>) input guess t))) =
           getMap (mapperOf (fst (processInput m input guess t)))"
proof -
  let ?m1 = "m\<lparr>sensorPose := guess, lastTimeMapWasUpdated := t,
                lastSensorPoseWhereMapWasUpdated := guess\<rparr>"
  let ?m1f = "m\<lparr>isMapping := False, sensorPose := guess, lastTimeMapWasUpdated := t,
                 lastSensorPoseWhereMapWasUpdated := guess\<rparr>"
  have eq: "fst (processInput m input guess t) = setMap ?m1 (firstMap m input guess) guess"
    using assms by (rule processInput_empty_setMap)
  have eq': "fst (processInput (m\<lparr>isMapping := False\<rparr>) input guess t) =
      setMap ?m1f (firstMap m input guess) guess"
    using assms by (simp add: processInput_empty_setMap firstMap_isMapping)
  have iff: "(\<exists>m'. setMap ?m1 (firstMap m input guess) guess = Returned m') \<longleftrightarrow>
      \<not> (computeProbDynamic m \<and> \<not> descriptorExists (firstMap m input guess) ''normals'')"
    by (auto simp: setMap_def Let_def)
  have ret: "\<forall>m'. setMap ?m1 (firstMap m input guess) guess = Returned m' \<longrightarrow>
      getMap m' = firstMap m input guess \<and> newMapAvailable m' \<and>
      mapBuilderFuture m' = mapBuilderFuture m"
    by (auto simp: getMap_def dest!: setMap_Returned)
  have same: "getMap (mapperOf (setMap ?m1f (firstMap m input guess) guess)) =
      getMap (mapperOf (setMap ?m1 (firstMap m input guess) guess))"
    by (simp add: setMap_def Let_def getMap_def)
  from eq eq' iff ret same show ?thesis by simp
qed

theorem processInput_first_observation_witness:
  "isMapEmpty mapperA \<and> \<not> isMapping mapperA \<and>
   shouldUpdateMap mapperA 0 (translationX 0) 0 = Inr False \<and>
   fst (processInput mapperA cloudA (translationX 0) 0) = Returned mapperA1 \<and>
   getMap mapperA1 = cloudA \<and> newMapAvailable mapperA1"
  using processInput_first_observation [OF mapperA_fields(1), of cloudA "translationX 0" 0]
    runA1_full mapperA_fields(1,3) firstMap_mapperA
  by (simp add: shouldUpdateMap_def)

subsection \<open>C10: \<^verbatim>\<open>getNewMap\<close> without a new map\<close>

text \<open>
  Claim C10. When \<^verbatim>\<open>getNewMap\<close> returns false the caller's cloud and the mapper, so the
  flag \<^verbatim>\<open>newMapAvailable\<close> and the stored map, are unchanged; it returns true exactly when
  the flag was set, and then the caller's cloud is the stored map and the flag is cleared.
\<close>

theorem getNewMap_frame:
  "(\<not> newMapAvailable m \<longrightarrow> getNewMap m mapOut = (False, mapOut, m)) \<and>
   (newMapAvailable m \<longrightarrow>
      getNewMap m mapOut = (True, getMap m, m\<lparr>newMapAvailable := False\<rparr>)) \<and>
   fst (getNewMap m mapOut) = newMapAvailable m"
  by (simp add: getNewMap_def getMap_def)

theorem getNewMap_frame_witness:
  "getNewMap mapperA cloudFar = (False, cloudFar, mapperA) \<and>
   getNewMap mapperA1 cloudFar = (True, cloudA, mapperA1\<lparr>newMapAvailable := False\<rparr>)"
  using getNewMap_frame [of mapperA cloudFar] getNewMap_frame [of mapperA1 cloudFar]
  by (simp add: mapperA_fields mapperA1_fields getMap_def)

end
